theory Spec2Isabelle
  imports Main "HOL-Library.AList"
begin

section \<open>JavaScript strings and numbers\<close>

text \<open>
  Text is a list of 8-bit characters read as ASCII: the socket tools print ASCII and
  every literal of the sources is ASCII (outside ASCII, JavaScript knows more white
  space and more letters with a case than this model does). A port or a pid is a
  natural number, the value of a run of digits; JavaScript keeps it as a double, which
  is the same number as long as the value is below \<open>2 ^ 53\<close>. A clock reading
  (\<open>Date.now()\<close>, \<open>new Date()\<close>) is an integer count of milliseconds. A JavaScript value
  that may be \<open>undefined\<close> or \<open>null\<close> is an \<open>option\<close>; the empty string and the number 0
  are falsy, as in the source.
\<close>

definition digit_chars :: string where
  "digit_chars = ''0123456789''"

definition is_digit :: "char \<Rightarrow> bool" where
  \<comment> \<open>the class of digits\<close>
  "is_digit c = (c \<in> set digit_chars)"

definition is_space :: "char \<Rightarrow> bool" where
  \<comment> \<open>the class of white space, and what \<open>trim\<close> removes: tab, line feed, vertical
      tab, form feed, carriage return, space\<close>
  "is_space c = (c \<in> set [CHR 0x09, CHR 0x0A, CHR 0x0B, CHR 0x0C, CHR 0x0D, CHR 0x20])"

definition digit_val :: "char \<Rightarrow> nat" where
  \<comment> \<open>the value of a digit: its position in \<open>digit_chars\<close>\<close>
  "digit_val c = length (takeWhile (\<lambda>d. d \<noteq> c) digit_chars)"

definition parseInt :: "string \<Rightarrow> nat" where
  \<comment> \<open>\<open>parseInt\<close> on the text of a group of digits: radix 10\<close>
  "parseInt ds = foldl (\<lambda>a c. 10 * a + digit_val c) 0 ds"

fun decimal :: "nat \<Rightarrow> string" where
  \<comment> \<open>a non-negative integer inside a template literal: \<open>`${n}`\<close>\<close>
  "decimal n =
     (if n < 10 then [digit_chars ! n] else decimal (n div 10) @ [digit_chars ! (n mod 10)])"

declare decimal.simps [simp del]

definition toLowerCase :: "string \<Rightarrow> string" where
  "toLowerCase s =
     map (\<lambda>c. case map_of (zip ''ABCDEFGHIJKLMNOPQRSTUVWXYZ'' ''abcdefghijklmnopqrstuvwxyz'') c of
                 Some l \<Rightarrow> l | None \<Rightarrow> c) s"

definition toUpperCase :: "string \<Rightarrow> string" where
  "toUpperCase s =
     map (\<lambda>c. case map_of (zip ''abcdefghijklmnopqrstuvwxyz'' ''ABCDEFGHIJKLMNOPQRSTUVWXYZ'') c of
                 Some u \<Rightarrow> u | None \<Rightarrow> c) s"

fun starts_with :: "string \<Rightarrow> string \<Rightarrow> bool" where
  "starts_with s [] = True"
| "starts_with [] (p # ps) = False"
| "starts_with (x # xs) (p # ps) = (x = p \<and> starts_with xs ps)"

fun str_includes :: "string \<Rightarrow> string \<Rightarrow> bool" where
  \<comment> \<open>\<open>s.includes(sub)\<close>\<close>
  "str_includes [] sub = (sub = [])"
| "str_includes (x # xs) sub = (starts_with (x # xs) sub \<or> str_includes xs sub)"

fun split_on :: "char \<Rightarrow> string \<Rightarrow> string list" where
  \<comment> \<open>\<open>s.split(c)\<close> for a one-character separator\<close>
  "split_on c [] = [[]]"
| "split_on c (x # xs) =
     (if x = c then [] # split_on c xs
      else (case split_on c xs of [] \<Rightarrow> [[x]] | l # ls \<Rightarrow> (x # l) # ls))"

definition truthy :: "string option \<Rightarrow> bool" where
  \<comment> \<open>a value that is \<open>undefined\<close> or a string, used as a condition\<close>
  "truthy v = (case v of None \<Rightarrow> False | Some s \<Rightarrow> s \<noteq> [])"

section \<open>Regular expressions\<close>

text \<open>
  The regular expressions of the sources use literals, the classes \<^verbatim>\<open>\d\<close>,
  \<^verbatim>\<open>\s\<close>, \<^verbatim>\<open>\S\<close> and \<^verbatim>\<open>[^"]\<close>, alternation, the greedy quantifier \<open>+\<close>, the
  count \<open>{3}\<close> and capture groups.
  \<open>rx_run r s c\<close> lists the ways \<open>r\<close> matches a prefix of \<open>s\<close>, in the order backtracking
  tries them (the left alternative first, the longer repetition first), each with the
  captures so far and the text left over. \<open>rx_search\<close> is \<open>String.prototype.match\<close>
  without the flag \<open>g\<close>: the first way at the leftmost position that has one. In the
  equation of \<open>Plus\<close> the test \<open>length s1 < length s\<close> ends a repetition whose body
  matched the empty text; no pattern of the sources has such a body.
\<close>

datatype cclass = Digit | Space | NonSpace | NotQuote

fun in_class :: "cclass \<Rightarrow> char \<Rightarrow> bool" where
  "in_class Digit c = is_digit c"
| "in_class Space c = is_space c"
| "in_class NonSpace c = (\<not> is_space c)"
| "in_class NotQuote c = (c \<noteq> CHR 0x22)"

datatype rx = Eps | Ch char | Cl cclass | Cat rx rx | Alt rx rx | Plus rx | Grp nat rx

type_synonym captures = "(nat \<times> string) list"

function rx_run :: "rx \<Rightarrow> string \<Rightarrow> captures \<Rightarrow> (captures \<times> string) list" where
  "rx_run Eps s c = [(c, s)]"
| "rx_run (Ch a) s c = (case s of [] \<Rightarrow> [] | x # xs \<Rightarrow> if x = a then [(c, xs)] else [])"
| "rx_run (Cl k) s c = (case s of [] \<Rightarrow> [] | x # xs \<Rightarrow> if in_class k x then [(c, xs)] else [])"
| "rx_run (Cat r1 r2) s c = concat (map (\<lambda>(c1, s1). rx_run r2 s1 c1) (rx_run r1 s c))"
| "rx_run (Alt r1 r2) s c = rx_run r1 s c @ rx_run r2 s c"
| "rx_run (Plus r) s c =
     concat (map (\<lambda>(c1, s1). (if length s1 < length s then rx_run (Plus r) s1 c1 else [])
                               @ [(c1, s1)])
                 (rx_run r s c))"
| "rx_run (Grp n r) s c =
     map (\<lambda>(c1, s1). ((n, take (length s - length s1) s) # c1, s1)) (rx_run r s c)"
  by pat_completeness auto
termination
  by (relation "measures [\<lambda>(r, s, c). size r, \<lambda>(r, s, c). length s]") auto

declare rx_run.simps(6) [simp del]

fun groups :: "rx \<Rightarrow> nat set" where
  \<comment> \<open>the numbers of the capture groups of a pattern\<close>
  "groups Eps = {}"
| "groups (Ch a) = {}"
| "groups (Cl k) = {}"
| "groups (Cat r1 r2) = groups r1 \<union> groups r2"
| "groups (Alt r1 r2) = groups r1 \<union> groups r2"
| "groups (Plus r) = groups r"
| "groups (Grp n r) = insert n (groups r)"

fun rx_search :: "rx \<Rightarrow> string \<Rightarrow> captures option" where
  "rx_search r [] = (case rx_run r [] [] of [] \<Rightarrow> None | (c, rest) # others \<Rightarrow> Some c)"
| "rx_search r (x # xs) =
     (case rx_run r (x # xs) [] of [] \<Rightarrow> rx_search r xs | (c, rest) # others \<Rightarrow> Some c)"

definition lit :: "string \<Rightarrow> rx" where
  \<comment> \<open>a run of literal characters\<close>
  "lit s = foldr (\<lambda>c r. Cat (Ch c) r) s Eps"

fun times :: "nat \<Rightarrow> rx \<Rightarrow> rx" where
  \<comment> \<open>the count \<open>{n}\<close>\<close>
  "times 0 r = Eps"
| "times (Suc n) r = Cat r (times n r)"

fun alts :: "rx list \<Rightarrow> rx" where
  \<comment> \<open>\<open>r1|r2|...|rn\<close>\<close>
  "alts [] = Eps"
| "alts [r] = r"
| "alts (r # rs) = Alt r (alts rs)"

fun seq :: "rx list \<Rightarrow> rx" where
  \<comment> \<open>\<open>r1 r2 ... rn\<close> in a row\<close>
  "seq [] = Eps"
| "seq [r] = r"
| "seq (r # rs) = Cat r (seq rs)"

definition group :: "captures option \<Rightarrow> nat \<Rightarrow> string option" where
  \<comment> \<open>\<open>match[n]\<close> of a match that is not \<open>null\<close>\<close>
  "group m n = (case m of None \<Rightarrow> None | Some c \<Rightarrow> map_of c n)"

section \<open>The socket-table reader (\<open>PortMonitor\<close>)\<close>

record port_record =
  port :: nat
  protocol :: string
  process :: string
  pid :: "nat option"
  address :: string
  timestamp :: int

definition ipv4 :: rx where
  \<comment> \<open>a dotted quad: three times digits and a dot, then digits\<close>
  "ipv4 = Cat (times 3 (Cat (Plus (Cl Digit)) (Ch CHR ''.''))) (Plus (Cl Digit))"

text \<open>
  The three port patterns, in the order the source tries them:
  \<^verbatim>\<open>/(?:0\.0\.0\.0|127\.0\.0\.1|\*|::|\[::\]):(\d+)/\<close>,
  \<^verbatim>\<open>/\s+(?:\d+\.){3}\d+:(\d+)\s+/\<close> and
  \<^verbatim>\<open>/:(\d+)\s+(?:\d+\.){3}\d+:\*/\<close>.
\<close>

definition portPatterns :: "rx list" where
  "portPatterns =
     [ seq [alts [lit ''0.0.0.0'', lit ''127.0.0.1'', lit ''*'', lit ''::'', lit ''[::]''],
            Ch CHR '':'', Grp 1 (Plus (Cl Digit))],
       seq [Plus (Cl Space), ipv4, Ch CHR '':'', Grp 1 (Plus (Cl Digit)), Plus (Cl Space)],
       seq [Ch CHR '':'', Grp 1 (Plus (Cl Digit)), Plus (Cl Space), ipv4, lit '':*''] ]"

text \<open>
  The four process patterns:
  \<^verbatim>\<open>/users:\(\("([^"]+)",pid=(\d+)/\<close> (ss, with a pid),
  \<^verbatim>\<open>/(\d+)\/(\S+)/\<close> (netstat),
  \<^verbatim>\<open>/"([^"]+)",pid=(\d+)/\<close> (ss, another form) and
  \<^verbatim>\<open>/users:\(\("([^"]+)"/\<close> (ss, without a pid).
  The double quote is the character 0x22.
\<close>

definition processPatterns :: "rx list" where
  "processPatterns =
     [ seq [lit ''users:(('', Ch (CHR 0x22), Grp 1 (Plus (Cl NotQuote)), Ch (CHR 0x22),
            lit '',pid='', Grp 2 (Plus (Cl Digit))],
       seq [Grp 1 (Plus (Cl Digit)), Ch CHR ''/'', Grp 2 (Plus (Cl NonSpace))],
       seq [Ch (CHR 0x22), Grp 1 (Plus (Cl NotQuote)), Ch (CHR 0x22),
            lit '',pid='', Grp 2 (Plus (Cl Digit))],
       seq [lit ''users:(('', Ch (CHR 0x22), Grp 1 (Plus (Cl NotQuote)), Ch (CHR 0x22)] ]"

text \<open>
  The address pattern: \<^verbatim>\<open>/((?:\d+\.){3}\d+|\*|::|\[::\]):(\d+)/\<close>.
\<close>

definition addressPattern :: rx where
  "addressPattern =
     seq [Grp 1 (alts [ipv4, lit ''*'', lit ''::'', lit ''[::]'']),
          Ch CHR '':'', Grp 2 (Plus (Cl Digit))]"

definition wellKnownPorts :: "(nat \<times> string) list" where
  "wellKnownPorts =
     [(22, ''ssh''), (53, ''dns''), (80, ''http''), (443, ''https''), (631, ''cups''),
      (3000, ''node''), (3306, ''mysql''), (5432, ''postgresql''), (6379, ''redis''),
      (8000, ''http-alt''), (8080, ''http-proxy''), (8888, ''http-alt''),
      (10486, ''vscode''), (27017, ''mongodb''), (53769, ''unknown'')]"

definition identifyPortService :: "nat \<Rightarrow> string" where
  \<comment> \<open>\<open>wellKnownPorts[port] || 'unknown'\<close>\<close>
  "identifyPortService portNo =
     (case map_of wellKnownPorts portNo of None \<Rightarrow> ''unknown'' | Some name \<Rightarrow> name)"

definition detect_protocol :: "string \<Rightarrow> string option" where
  \<comment> \<open>the protocol of a line; \<open>None\<close> where the source says \<open>continue\<close>\<close>
  "detect_protocol line =
     (if str_includes line ''tcp'' then Some ''tcp''
      else if str_includes line ''udp'' then Some ''udp''
      else None)"

fun extract_port :: "rx list \<Rightarrow> string \<Rightarrow> nat option" where
  \<comment> \<open>the loop over \<open>portPatterns\<close>: the first pattern with \<open>match && match[1]\<close> gives the
      port; \<open>None\<close> is \<open>portFound = false\<close>\<close>
  "extract_port [] line = None"
| "extract_port (pattern # patterns) line =
     (let m = rx_search pattern line
      in if m \<noteq> None \<and> truthy (group m 1) then map_option parseInt (group m 1)
         else extract_port patterns line)"

fun extract_process :: "nat \<Rightarrow> rx list \<Rightarrow> string \<Rightarrow> string option \<times> nat option" where
  \<comment> \<open>the loop over \<open>processPatterns\<close>, \<open>i\<close> the index of \<open>pattern\<close>: the first pattern that
      matches gives \<open>(process, pid)\<close>, each \<open>undefined\<close> until assigned\<close>
  "extract_process i [] line = (None, None)"
| "extract_process i (pattern # patterns) line =
     (let m = rx_search pattern line
      in if m \<noteq> None then
           (if i = 1 then (group m 2, map_option parseInt (group m 1))
            else if truthy (group m 2) then (group m 1, map_option parseInt (group m 2))
            else (group m 1, None))
         else extract_process (Suc i) patterns line)"

definition extract_address :: "string \<Rightarrow> string option" where
  "extract_address line =
     (let addressMatch = rx_search addressPattern line
      in case group addressMatch 1 of
           None \<Rightarrow> None
         | Some a \<Rightarrow> Some (if a = ''*'' \<or> str_includes a ''::'' then ''0.0.0.0'' else a))"

definition portKey :: "string \<Rightarrow> nat \<Rightarrow> string" where
  \<comment> \<open>\<open>`${protocol}-${port}`\<close>\<close>
  "portKey proto portNo = proto @ ''-'' @ decimal portNo"

definition line_record :: "int \<Rightarrow> string \<Rightarrow> string \<Rightarrow> nat \<Rightarrow> port_record" where
  \<comment> \<open>the record pushed for a line that passed every \<open>continue\<close>; \<open>now\<close> is the reading of
      \<open>new Date()\<close>, kept as a number where the source keeps its ISO text\<close>
  "line_record now line proto portNo =
     (let (proc0, pid0) = extract_process 0 processPatterns line;
          proc = (if \<not> truthy proc0 \<and> portNo \<noteq> 0 then Some (identifyPortService portNo) else proc0);
          addr = extract_address line
      in \<lparr> port = portNo,
           protocol = proto,
           process = (case proc of None \<Rightarrow> ''unknown'' | Some n \<Rightarrow> if n = [] then ''unknown'' else n),
           pid = (case pid0 of None \<Rightarrow> None | Some n \<Rightarrow> if n = 0 then None else Some n),
           address = (case addr of None \<Rightarrow> ''0.0.0.0'' | Some a \<Rightarrow> if a = [] then ''0.0.0.0'' else a),
           timestamp = now \<rparr>)"

definition line_entry :: "string \<Rightarrow> (string \<times> nat) option" where
  \<comment> \<open>the loop body up to \<open>if (!portFound || !port) continue\<close>: the protocol and the port
      of a line, \<open>None\<close> where the source says \<open>continue\<close>\<close>
  "line_entry line =
     (if str_includes line ''Proto'' \<or> str_includes line ''Active'' then None
      else case detect_protocol line of
        None \<Rightarrow> None
      | Some proto \<Rightarrow>
         (case extract_port portPatterns line of
            None \<Rightarrow> None
          | Some portNo \<Rightarrow> if portNo = 0 then None else Some (proto, portNo)))"

fun parse_lines ::
  "(nat \<Rightarrow> int) \<Rightarrow> string list \<Rightarrow> port_record list \<Rightarrow> string set \<Rightarrow> port_record list" where
  \<comment> \<open>the \<open>for (const line of lines)\<close> loop with its state \<open>ports\<close> and \<open>seenPorts\<close>;
      \<open>clock k\<close> is what \<open>new Date()\<close> reads when record number \<open>k\<close> is built\<close>
  "parse_lines clock [] ports seenPorts = ports"
| "parse_lines clock (line # lines) ports seenPorts =
     (case line_entry line of
        None \<Rightarrow> parse_lines clock lines ports seenPorts
      | Some (proto, portNo) \<Rightarrow>
         if portKey proto portNo \<in> seenPorts then parse_lines clock lines ports seenPorts
         else parse_lines clock lines
                (ports @ [line_record (clock (length ports)) line proto portNo])
                (insert (portKey proto portNo) seenPorts))"

definition parsePortOutput :: "(nat \<Rightarrow> int) \<Rightarrow> string \<Rightarrow> port_record list" where
  \<comment> \<open>\<open>Array.prototype.sort\<close> is stable, as the insertion sort \<open>sort_key\<close> is\<close>
  "parsePortOutput clock output =
     (let lines = filter (\<lambda>line. list_ex (\<lambda>c. \<not> is_space c) line) (split_on (CHR 0x0A) output)
      in sort_key port (parse_lines clock lines [] {}))"

record monitor =
  cachedPorts :: "port_record list"
  lastUpdate :: int
  cacheTimeout :: int

datatype exec_error = ExecError

definition new_monitor :: monitor where
  \<comment> \<open>the constructor\<close>
  "new_monitor = \<lparr> cachedPorts = [], lastUpdate = 0, cacheTimeout = 5000 \<rparr>"

definition getActivePorts_body ::
  "monitor \<Rightarrow> int \<Rightarrow> int \<Rightarrow> (nat \<Rightarrow> int) \<Rightarrow> exec_error + string \<Rightarrow> exec_error + string
     \<Rightarrow> exec_error + port_record list \<times> monitor" where
  \<comment> \<open>the body of the outer \<open>try\<close>. \<open>ss\<close> and \<open>netstat\<close> are the outcomes of the two
      \<open>execPromise\<close> calls (\<open>Inl\<close> a rejection, \<open>Inr\<close> the \<open>stdout\<close>); \<open>now\<close> and \<open>now'\<close> are
      the two readings of \<open>Date.now()\<close>\<close>
  "getActivePorts_body m now now' clock ss netstat =
     (if now - lastUpdate m < cacheTimeout m \<and> length (cachedPorts m) > 0
      then Inr (cachedPorts m, m)
      else
        let refresh = (\<lambda>output.
              let ports = parsePortOutput clock output
              in Inr (ports, m\<lparr> cachedPorts := ports, lastUpdate := now' \<rparr>))
        in case ss of
             Inr stdout \<Rightarrow> refresh stdout
           | Inl e \<Rightarrow>
              (case netstat of
                 Inr stdout \<Rightarrow> refresh stdout
               | Inl fallbackError \<Rightarrow> Inr (cachedPorts m, m)))"

definition getActivePorts ::
  "monitor \<Rightarrow> int \<Rightarrow> int \<Rightarrow> (nat \<Rightarrow> int) \<Rightarrow> exec_error + string \<Rightarrow> exec_error + string
     \<Rightarrow> exec_error + port_record list \<times> monitor" where
  \<comment> \<open>the outer \<open>try ... catch (error) { return this.cachedPorts; }\<close>; a result \<open>Inl\<close>
      would be a rejected promise\<close>
  "getActivePorts m now now' clock ss netstat =
     (case getActivePorts_body m now now' clock ss netstat of
        Inr result \<Rightarrow> Inr result
      | Inl error \<Rightarrow> Inr (cachedPorts m, m))"

section \<open>The port-knowledge table (\<open>portDatabase.js\<close>)\<close>

record port_entry =
  service :: string
  description :: string
  entry_protocol :: string
  risk :: string
  category :: string
  recommendations :: "string list"
  commonProcesses :: "string list"

text \<open>
  \<open>commonPorts\<close> is an object literal, listed here in the order of the source. The key
  22 is written twice (SSH, then SFTP); in an object literal the later property
  replaces the earlier one, so a lookup reads the list from its end.
\<close>

definition commonPorts :: "(nat \<times> port_entry) list" where
  "commonPorts =
     [
      (80, \<lparr> service = ''HTTP'',
          description = ''Hypertext Transfer Protocol - Unencrypted web traffic'',
          entry_protocol = ''tcp'', risk = ''medium'', category = ''web'',
          recommendations =
           [''Use HTTPS (Port 443) instead of HTTP'',
            ''Implement Web Application Firewall (WAF)'',
            ''Monitor for unusual requests''],
          commonProcesses = [''nginx'', ''apache2'', ''httpd'', ''lighttpd''] \<rparr>),
      (443, \<lparr> service = ''HTTPS'',
          description = ''HTTP Secure - Encrypted web traffic'',
          entry_protocol = ''tcp'', risk = ''low'', category = ''web'',
          recommendations =
           [''Ensure that strong TLS versions are used'',
            ''Use valid SSL/TLS certificates'',
            ''Enable HTTP Strict Transport Security (HSTS)''],
          commonProcesses = [''nginx'', ''apache2'', ''httpd''] \<rparr>),
      (8080, \<lparr> service = ''HTTP-Alt'',
          description = ''Alternative HTTP Port - often for Development or Proxies'',
          entry_protocol = ''tcp'', risk = ''medium'', category = ''web'',
          recommendations =
           [''Restrict access to necessary IPs'',
            ''Use authentication'',
            ''Monitor unauthorized access''],
          commonProcesses = [''tomcat'', ''jetty'', ''node'', ''python''] \<rparr>),
      (8000, \<lparr> service = ''HTTP-Dev'',
          description = ''Development HTTP Server'',
          entry_protocol = ''tcp'', risk = ''high'', category = ''development'',
          recommendations =
           [''Use only for development'',
            ''Do not use in production environments'',
            ''Configure firewall rules for external access''],
          commonProcesses = [''python'', ''node'', ''ruby'', ''php''] \<rparr>),
      (22, \<lparr> service = ''SSH'',
          description = ''Secure Shell - Encrypted Remote-access'',
          entry_protocol = ''tcp'', risk = ''medium'', category = ''remote'',
          recommendations =
           [''Use key-based authentication'',
            ''Disable root login'',
            ''Change default port'',
            ''Implement Fail2Ban''],
          commonProcesses = [''sshd'', ''openssh-server''] \<rparr>),
      (23, \<lparr> service = ''Telnet'',
          description = ''Telnet - INSECURE plaintext Remote-access'',
          entry_protocol = ''tcp'', risk = ''critical'', category = ''remote'',
          recommendations =
           [''IMMEDIATELY DISABLE - Use SSH instead'',
            ''Change all passwords'',
            ''Check network for compromise''],
          commonProcesses = [''telnetd'', ''xinetd''] \<rparr>),
      (3389, \<lparr> service = ''RDP'',
          description = ''Remote Desktop Protocol - Windows Remote Desktop'',
          entry_protocol = ''tcp'', risk = ''high'', category = ''remote'',
          recommendations =
           [''Use VPN for external access'',
            ''Enable Network Level Authentication'',
            ''Use strong passwords'',
            ''Monitor login attempts''],
          commonProcesses = [''TermService'', ''rdp''] \<rparr>),
      (3306, \<lparr> service = ''MySQL'',
          description = ''MySQL/MariaDB Database'',
          entry_protocol = ''tcp'', risk = ''high'', category = ''database'',
          recommendations =
           [''Use strong passwords'',
            ''Restrict network access'',
            ''Enable SSL/TLS'',
            ''Regular Security Updates''],
          commonProcesses = [''mysqld'', ''mariadb''] \<rparr>),
      (5432, \<lparr> service = ''PostgreSQL'',
          description = ''PostgreSQL Database'',
          entry_protocol = ''tcp'', risk = ''high'', category = ''database'',
          recommendations =
           [''Configure pg_hba.conf secure'',
            ''Use SSL connections'',
            ''Restrict network access'',
            ''Enable Logging''],
          commonProcesses = [''postgres'', ''postmaster''] \<rparr>),
      (27017, \<lparr> service = ''MongoDB'',
          description = ''MongoDB NoSQL Database'',
          entry_protocol = ''tcp'', risk = ''high'', category = ''database'',
          recommendations =
           [''Enable authentication'',
            ''Use SSL/TLS'',
            ''Restrict network access'',
            ''Regular Backups''],
          commonProcesses = [''mongod''] \<rparr>),
      (6379, \<lparr> service = ''Redis'',
          description = ''Redis In-Memory Database/Cache'',
          entry_protocol = ''tcp'', risk = ''high'', category = ''database'',
          recommendations =
           [''Enable authentication (requirepass)'',
            ''Bind only to localhost'',
            ''Use firewall rules'',
            ''Disable dangerous commands''],
          commonProcesses = [''redis-server''] \<rparr>),
      (53, \<lparr> service = ''DNS'',
          description = ''Domain Name System'',
          entry_protocol = ''both'', risk = ''medium'', category = ''network'',
          recommendations =
           [''Restrict recursive queries'',
            ''Implement DNS filtering'',
            ''Monitor DNS tunneling'',
            ''Use DNS over HTTPS/TLS''],
          commonProcesses = [''named'', ''dnsmasq'', ''systemd-resolved'', ''unbound''] \<rparr>),
      (21, \<lparr> service = ''FTP'',
          description = ''File Transfer Protocol - INSECURE'',
          entry_protocol = ''tcp'', risk = ''high'', category = ''file'',
          recommendations =
           [''Use SFTP or FTPS instead'',
            ''Restrict to internal networks'',
            ''Monitor file transfers'',
            ''Use strong authentication''],
          commonProcesses = [''vsftpd'', ''proftpd'', ''ftpd''] \<rparr>),
      (22, \<lparr> service = ''SFTP'',
          description = ''SSH File Transfer Protocol - Secure file transfer'',
          entry_protocol = ''tcp'', risk = ''low'', category = ''file'',
          recommendations =
           [''Use key-based authentication'',
            ''Restrict directory access (chroot)'',
            ''Monitor file transfers''],
          commonProcesses = [''sshd''] \<rparr>),
      (25, \<lparr> service = ''SMTP'',
          description = ''Simple Mail Transfer Protocol'',
          entry_protocol = ''tcp'', risk = ''medium'', category = ''mail'',
          recommendations =
           [''Use STARTTLS'',
            ''Implement SPF/DKIM/DMARC'',
            ''Monitor for spam/relay abuse'',
            ''Enable authentication''],
          commonProcesses = [''postfix'', ''sendmail'', ''exim''] \<rparr>),
      (587, \<lparr> service = ''SMTP-Auth'',
          description = ''SMTP with authentication (Submission)'',
          entry_protocol = ''tcp'', risk = ''low'', category = ''mail'',
          recommendations =
           [''Enforce STARTTLS'',
            ''Use strong authentication'',
            ''Implement rate limiting''],
          commonProcesses = [''postfix'', ''exim''] \<rparr>),
      (993, \<lparr> service = ''IMAPS'',
          description = ''IMAP over SSL - Secure mail retrieval'',
          entry_protocol = ''tcp'', risk = ''low'', category = ''mail'',
          recommendations =
           [''Use strong TLS versions'',
            ''Implement two-factor authentication'',
            ''Monitor login attempts''],
          commonProcesses = [''dovecot'', ''courier-imap''] \<rparr>),
      (3000, \<lparr> service = ''Node.js Dev'',
          description = ''Node.js Development Server'',
          entry_protocol = ''tcp'', risk = ''medium'', category = ''development'',
          recommendations =
           [''Use only for development'',
            ''Restrict network access'',
            ''Use environment variables for secrets''],
          commonProcesses = [''node'', ''npm'', ''yarn''] \<rparr>),
      (9090, \<lparr> service = ''Prometheus'',
          description = ''Prometheus Monitoring'',
          entry_protocol = ''tcp'', risk = ''medium'', category = ''monitoring'',
          recommendations =
           [''Restrict access to monitoring network'',
            ''Use authentication'',
            ''Monitor sensitive metrics''],
          commonProcesses = [''prometheus''] \<rparr>),
      (3001, \<lparr> service = ''Grafana'',
          description = ''Grafana Dashboard'',
          entry_protocol = ''tcp'', risk = ''medium'', category = ''monitoring'',
          recommendations =
           [''Use strong admin passwords'',
            ''Enable HTTPS'',
            ''Restrict dashboard access''],
          commonProcesses = [''grafana-server''] \<rparr>),
      (161, \<lparr> service = ''SNMP'',
          description = ''Simple Network Management Protocol'',
          entry_protocol = ''udp'', risk = ''high'', category = ''network'',
          recommendations =
           [''Use SNMPv3 with encryption'',
            ''Change default community strings'',
            ''Restrict access via firewall'',
            ''Monitor SNMP queries''],
          commonProcesses = [''snmpd''] \<rparr>),
      (5353, \<lparr> service = ''mDNS'',
          description = ''Multicast DNS (Bonjour/Avahi)'',
          entry_protocol = ''udp'', risk = ''low'', category = ''network'',
          recommendations =
           [''Disable if not needed'',
            ''Restrict to local networks'',
            ''Monitor mDNS-traffic''],
          commonProcesses = [''avahi-daemon'', ''mDNSResponder''] \<rparr>),
      (135, \<lparr> service = ''MS-RPC'',
          description = ''Microsoft RPC Endpoint Mapper'',
          entry_protocol = ''tcp'', risk = ''critical'', category = ''windows'',
          recommendations =
           [''Block external access'',
            ''Keep Windows-Updates up to date'',
            ''Monitor RPC-traffic'',
            ''Use Windows Firewall''],
          commonProcesses = [''svchost.exe''] \<rparr>),
      (445, \<lparr> service = ''SMB'',
          description = ''Server Message Block - Windows file sharing'',
          entry_protocol = ''tcp'', risk = ''critical'', category = ''file'',
          recommendations =
           [''Block external access IMMEDIATELY'',
            ''Disable SMBv1'',
            ''Use strong authentication'',
            ''Monitor file shares''],
          commonProcesses = [''smbd'', ''System''] \<rparr>)
     ]"

definition commonPorts_lookup :: "nat \<Rightarrow> port_entry option" where
  \<comment> \<open>\<open>commonPorts[port]\<close>\<close>
  "commonPorts_lookup portNo = map_of (rev commonPorts) portNo"

definition dangerousPorts :: "nat list" where
  "dangerousPorts = [23, 135, 139, 445, 1433, 1521, 2049, 3389, 5900, 5984, 6000, 8080, 8888, 9200]"

definition developmentPorts :: "nat list" where
  "developmentPorts = [3000, 3001, 4000, 5000, 8000, 8080, 8888, 9000]"

definition databasePorts :: "nat list" where
  "databasePorts = [1433, 1521, 3306, 5432, 6379, 27017, 28017]"

record port_info = port_entry +
  isKnown :: bool
  isDangerous :: bool
  isDevelopment :: bool
  isDatabase :: bool
  processMatch :: bool

definition getPortInfo :: "nat \<Rightarrow> string \<Rightarrow> string \<Rightarrow> port_info" where
  \<comment> \<open>an unknown port has no \<open>commonProcesses\<close> property: the empty list here\<close>
  "getPortInfo portNo proto proc =
     (case commonPorts_lookup portNo of
        Some portInfo \<Rightarrow>
          \<lparr> service = service portInfo,
            description = description portInfo,
            entry_protocol = entry_protocol portInfo,
            risk = risk portInfo,
            category = category portInfo,
            recommendations = recommendations portInfo,
            commonProcesses = commonProcesses portInfo,
            isKnown = True,
            isDangerous = (portNo \<in> set dangerousPorts),
            isDevelopment = (portNo \<in> set developmentPorts),
            isDatabase = (portNo \<in> set databasePorts),
            processMatch =
              list_ex (\<lambda>p. proc \<noteq> [] \<and> str_includes (toLowerCase proc) (toLowerCase p))
                (commonProcesses portInfo) \<rparr>
      | None \<Rightarrow>
          (let risk0 = ''low'';
               category0 = ''unknown'';
               recommendations0 = [''Identify the service'', ''Check if the port is needed''];
               (risk1, recommendations1) =
                 (if portNo < 1024
                  then (''medium'', recommendations0 @ [''System port - check privileged processes''])
                  else (risk0, recommendations0));
               (risk2, category2, recommendations2) =
                 (if portNo \<ge> 49152
                  then (''low'', ''dynamic'', recommendations1 @ [''Dynamic port - temporary connection''])
                  else (risk1, category0, recommendations1));
               (risk3, recommendations3) =
                 (if portNo \<in> set dangerousPorts
                  then (''critical'', recommendations2 @ [''CRITICAL: Known dangerous port''])
                  else (risk2, recommendations2))
           in \<lparr> service = ''Unknown'',
                description = ''Unknown service on port '' @ decimal portNo,
                entry_protocol = proto,
                risk = risk3,
                category = category2,
                recommendations = recommendations3,
                commonProcesses = [],
                isKnown = False,
                isDangerous = (portNo \<in> set dangerousPorts),
                isDevelopment = (portNo \<in> set developmentPorts),
                isDatabase = (portNo \<in> set databasePorts),
                processMatch = False \<rparr>))"

record security_alert =
  sa_type :: string
  sa_severity :: string
  sa_message :: string
  sa_port :: nat
  sa_process :: string
  sa_address :: string
  sa_service :: string
  sa_category :: string
  sa_recommendations :: "string list"
  sa_portInfo :: port_info
  sa_timestamp :: int

definition generateSecurityAlert ::
  "int \<Rightarrow> nat \<Rightarrow> string \<Rightarrow> string \<Rightarrow> string \<Rightarrow> security_alert" where
  \<comment> \<open>\<open>now\<close> is the reading of \<open>new Date()\<close>; the caller passes every argument, so the
      default of \<open>address\<close> plays no part\<close>
  "generateSecurityAlert now portNo proto proc addr =
     (let portInfo = getPortInfo portNo proto proc;
          (severity, type, message) =
            (if isDangerous portInfo then
               (''critical'', ''dangerous_port'',
                ''CRITICAL: Dangerous service '' @ service portInfo @ '' detected on port ''
                  @ decimal portNo)
             else if \<not> isKnown portInfo then
               (''medium'', ''unknown_port'',
                ''Unknown service on port '' @ decimal portNo @ '' ('' @ toUpperCase proto @ '')'')
             else if risk portInfo = ''high'' then
               (''high'', ''high_risk_service'',
                ''High-risk service '' @ service portInfo @ '' on port '' @ decimal portNo)
             else if isDevelopment portInfo \<and> addr \<noteq> ''127.0.0.1'' \<and> addr \<noteq> ''localhost'' then
               (''high'', ''dev_service_exposed'',
                ''Development service '' @ service portInfo @ '' exposed to external connections'')
             else if \<not> processMatch portInfo \<and> proc \<noteq> [] then
               (''medium'', ''process_mismatch'',
                ''Unexpected process '' @ [CHR 0x22] @ proc @ [CHR 0x22] @ '' on ''
                  @ service portInfo @ '' port '' @ decimal portNo)
             else
               (''low'', ''info'',
                service portInfo @ '' service active on port '' @ decimal portNo))
      in \<lparr> sa_type = type,
           sa_severity = severity,
           sa_message = message,
           sa_port = portNo,
           sa_process = (if proc = [] then ''unknown'' else proc),
           sa_address = addr,
           sa_service = service portInfo,
           sa_category = category portInfo,
           sa_recommendations = recommendations portInfo,
           sa_portInfo = portInfo,
           sa_timestamp = now \<rparr>)"

section \<open>The whitelist and the classifier (\<open>SecurityAnalyzer\<close>)\<close>

record whitelist =
  wl_ports :: "nat list"
  wl_processes :: "string list"

text \<open>
  The whitelist document is a file: \<open>None\<close> when it is missing, unreadable or not JSON,
  otherwise the whitelist it holds (the analyzer itself is its only writer). A write
  succeeds or fails as the file system decides; \<open>write_ok\<close> is that outcome.
\<close>

type_synonym whitelist_file = "whitelist option"

datatype io_error = WriteError

definition loadWhitelist :: "whitelist_file \<Rightarrow> whitelist" where
  "loadWhitelist file =
     (case file of
        Some data \<Rightarrow> data
      | None \<Rightarrow> \<lparr> wl_ports = [], wl_processes = [] \<rparr>)"

definition saveWhitelist :: "bool \<Rightarrow> whitelist \<Rightarrow> io_error + whitelist_file" where
  \<comment> \<open>\<open>Inr\<close> the file after the write, \<open>Inl\<close> the rejection of \<open>mkdir\<close> or \<open>writeFile\<close>\<close>
  "saveWhitelist write_ok wl = (if write_ok then Inr (Some wl) else Inl WriteError)"

definition addToWhitelist ::
  "whitelist_file \<Rightarrow> bool \<Rightarrow> nat \<Rightarrow> string option \<Rightarrow> io_error + whitelist_file" where
  "addToWhitelist file write_ok portNo proc =
     (let wl = loadWhitelist file;
          wl1 = (if portNo \<notin> set (wl_ports wl)
                 then wl\<lparr> wl_ports := wl_ports wl @ [portNo] \<rparr> else wl);
          wl2 = (case proc of
                   Some name \<Rightarrow>
                     if name \<noteq> [] \<and> name \<notin> set (wl_processes wl1)
                     then wl1\<lparr> wl_processes := wl_processes wl1 @ [name] \<rparr> else wl1
                 | None \<Rightarrow> wl1)
      in saveWhitelist write_ok wl2)"

definition removeFromWhitelist ::
  "whitelist_file \<Rightarrow> bool \<Rightarrow> nat \<Rightarrow> io_error + whitelist_file" where
  "removeFromWhitelist file write_ok portNo =
     (let wl = loadWhitelist file;
          wl1 = wl\<lparr> wl_ports := filter (\<lambda>p. p \<noteq> portNo) (wl_ports wl) \<rparr>
      in saveWhitelist write_ok wl1)"

text \<open>
  The four suspicious patterns, each with the flag \<open>i\<close>:
  \<^verbatim>\<open>/nc|netcat/i\<close>, \<^verbatim>\<open>/miner|xmrig/i\<close>, \<^verbatim>\<open>/telnet/i\<close>, \<^verbatim>\<open>/torrent/i\<close>.
  The patterns are lower-case letters only, so a test ignoring case is a test on the
  lower-cased text.
\<close>

definition suspiciousPatterns :: "(rx \<times> string \<times> string) list" where
  \<comment> \<open>pattern, severity, reason\<close>
  "suspiciousPatterns =
     [ (alts [lit ''nc'', lit ''netcat''], ''high'', ''Potential backdoor''),
       (alts [lit ''miner'', lit ''xmrig''], ''critical'', ''Crypto miner detected''),
       (lit ''telnet'', ''medium'', ''Insecure protocol''),
       (lit ''torrent'', ''low'', ''P2P activity'') ]"

definition test_i :: "rx \<Rightarrow> string \<Rightarrow> bool" where
  \<comment> \<open>\<open>pattern.test(s)\<close> for a pattern with the flag \<open>i\<close>\<close>
  "test_i pattern s = (rx_search pattern (toLowerCase s) \<noteq> None)"

record details =
  d_description :: string
  d_risk :: string
  d_isDangerous :: bool
  d_isDevelopment :: bool
  d_isDatabase :: bool
  d_processMatch :: bool

record detailed_alert =
  da_type :: string
  da_severity :: string
  da_message :: string
  da_port :: nat
  da_process :: string
  da_address :: string
  da_service :: string
  da_category :: string
  da_recommendations :: "string list"
  da_portInfo :: port_info
  da_timestamp :: int
  da_details :: details

record basic_alert =
  ba_type :: string
  ba_severity :: string
  ba_message :: string
  ba_port :: nat
  ba_process :: string
  ba_recommendations :: "string list"

record scan_alert =
  scan_type :: string
  scan_severity :: string
  scan_message :: string
  scan_ports :: "nat list"

text \<open>
  The alerts of \<open>analyzePorts\<close> are objects of three shapes: the detailed alert built
  from \<open>generateSecurityAlert\<close>, the alert of a suspicious process or a privilege
  violation, and the port-scan alert.
\<close>

datatype alert = Detailed detailed_alert | Basic basic_alert | Scan scan_alert

fun alert_type :: "alert \<Rightarrow> string" where
  "alert_type (Detailed a) = da_type a"
| "alert_type (Basic a) = ba_type a"
| "alert_type (Scan a) = scan_type a"

fun alert_severity :: "alert \<Rightarrow> string" where
  "alert_severity (Detailed a) = da_severity a"
| "alert_severity (Basic a) = ba_severity a"
| "alert_severity (Scan a) = scan_severity a"

fun is_scan :: "alert \<Rightarrow> bool" where
  "is_scan (Scan a) = True"
| "is_scan a = False"

definition whitelisted :: "whitelist \<Rightarrow> port_record \<Rightarrow> bool" where
  \<comment> \<open>\<open>whitelist.ports.includes(port.port) || whitelist.processes.includes(port.process)\<close>\<close>
  "whitelisted wl p = (port p \<in> set (wl_ports wl) \<or> process p \<in> set (wl_processes wl))"

definition detailedAlert :: "int \<Rightarrow> port_record \<Rightarrow> detailed_alert" where
  \<comment> \<open>\<open>detailedAlert\<close> of a record that is not skipped; \<open>now\<close> is the reading of the
      clock in \<open>generateSecurityAlert\<close>\<close>
  "detailedAlert now p =
     (let securityAlert = generateSecurityAlert now (port p)
            (if protocol p = [] then ''tcp'' else protocol p)
            (process p)
            (if address p = [] then ''unknown'' else address p)
      in \<lparr> da_type = sa_type securityAlert,
           da_severity = sa_severity securityAlert,
           da_message = sa_message securityAlert,
           da_port = port p,
           da_process = (if process p = [] then ''unknown'' else process p),
           da_address = (if address p = [] then ''unknown'' else address p),
           da_service = sa_service securityAlert,
           da_category = sa_category securityAlert,
           da_recommendations = sa_recommendations securityAlert,
           da_portInfo = sa_portInfo securityAlert,
           da_timestamp = sa_timestamp securityAlert,
           da_details =
             \<lparr> d_description = description (sa_portInfo securityAlert),
               d_risk = risk (sa_portInfo securityAlert),
               d_isDangerous = isDangerous (sa_portInfo securityAlert),
               d_isDevelopment = isDevelopment (sa_portInfo securityAlert),
               d_isDatabase = isDatabase (sa_portInfo securityAlert),
               d_processMatch = processMatch (sa_portInfo securityAlert) \<rparr> \<rparr>)"

definition portAlerts :: "int \<Rightarrow> port_record \<Rightarrow> alert list" where
  \<comment> \<open>\<open>portAlerts\<close> of a record that is not skipped: the detailed alert, then one alert
      for each suspicious pattern that the process name matches, then the alert of a
      privilege violation\<close>
  "portAlerts now p =
     (let suspicious =
            map (\<lambda>(pattern, severity, reason).
                   Basic \<lparr> ba_type = ''suspicious_process'',
                           ba_severity = severity,
                           ba_message = reason @ '': '' @ process p @ '' on port ''
                             @ decimal (port p),
                           ba_port = port p,
                           ba_process = process p,
                           ba_recommendations =
                             [''Investigate the process further'', ''Check for malware'',
                              ''Monitor network traffic''] \<rparr>)
              (filter (\<lambda>(pattern, severity, reason). process p \<noteq> [] \<and> test_i pattern (process p))
                 suspiciousPatterns);
          privilege =
            (if port p < 1024 \<and> process p \<noteq> ''root''
                \<and> (case pid p of None \<Rightarrow> False | Some n \<Rightarrow> n \<noteq> 0)
             then [Basic \<lparr> ba_type = ''privilege_violation'',
                           ba_severity = ''high'',
                           ba_message = ''Non-root process '' @ process p
                             @ '' using privileged port '' @ decimal (port p),
                           ba_port = port p,
                           ba_process = process p,
                           ba_recommendations =
                             [''Check process permissions'', ''Check for privilege escalation'',
                              ''Analyze system security''] \<rparr>]
             else [])
      in Detailed (detailedAlert now p) # suspicious @ privilege)"

fun analyze_each ::
  "whitelist \<Rightarrow> (nat \<Rightarrow> int) \<Rightarrow> nat \<Rightarrow> port_record list \<Rightarrow> alert list \<Rightarrow> alert list" where
  \<comment> \<open>the \<open>for (const port of ports)\<close> loop with its state \<open>alerts\<close>; \<open>k\<close> counts the records
      and \<open>clock k\<close> is the reading of the clock while record \<open>k\<close> is classified\<close>
  "analyze_each wl clock k [] alerts = alerts"
| "analyze_each wl clock k (p # ps) alerts =
     (if whitelisted wl p then analyze_each wl clock (Suc k) ps alerts
      else analyze_each wl clock (Suc k) ps (alerts @ portAlerts (clock k) p))"

section \<open>The port-scan detector (\<open>SecurityAnalyzer.detectPortScanning\<close>)\<close>

text \<open>
  \<open>connectionHistory\<close> is a JavaScript \<open>Map\<close> from the key text to the last-seen clock
  reading: an association list in insertion order, where \<open>set\<close> replaces the value of a
  key in place or appends a new entry, as \<open>AList.update\<close> does.
\<close>

type_synonym history = "(string \<times> int) list"

definition historyKey :: "port_record \<Rightarrow> string" where
  \<comment> \<open>\<open>key\<close> of \<open>detectPortScanning\<close>: \<open>`${port.port}_${port.protocol}`\<close>\<close>
  "historyKey p = decimal (port p) @ ''_'' @ protocol p"

definition newly_seen :: "history \<Rightarrow> int \<Rightarrow> string \<Rightarrow> bool" where
  \<comment> \<open>\<open>!lastSeen || currentTime - lastSeen > 60000\<close>: an absent key gives \<open>undefined\<close>,
      and the number 0 is falsy as well\<close>
  "newly_seen h currentTime key =
     (case map_of h key of
        None \<Rightarrow> True
      | Some lastSeen \<Rightarrow> lastSeen = 0 \<or> currentTime - lastSeen > 60000)"

fun scan_each :: "int \<Rightarrow> port_record list \<Rightarrow> history \<Rightarrow> nat list \<Rightarrow> history \<times> nat list" where
  \<comment> \<open>the \<open>ports.forEach\<close> loop, threading the map and \<open>recentPorts\<close>\<close>
  "scan_each currentTime [] h recentPorts = (h, recentPorts)"
| "scan_each currentTime (p # ps) h recentPorts =
     scan_each currentTime ps
       (AList.update (historyKey p) currentTime h)
       (if newly_seen h currentTime (historyKey p) then recentPorts @ [port p] else recentPorts)"

definition sweep :: "int \<Rightarrow> history \<Rightarrow> history" where
  \<comment> \<open>the \<open>for (const [key, timestamp] of this.connectionHistory.entries())\<close> loop:
      deleting the current entry of a \<open>Map\<close> while iterating it skips nothing\<close>
  "sweep currentTime h = filter (\<lambda>(key, ts). \<not> currentTime - ts > 300000) h"

definition portScanThreshold :: nat where
  "portScanThreshold = 10"

definition detectPortScanning ::
  "history \<Rightarrow> int \<Rightarrow> port_record list \<Rightarrow> scan_alert option \<times> history" where
  \<comment> \<open>the state is \<open>this.connectionHistory\<close>, \<open>currentTime\<close> is the reading of
      \<open>Date.now()\<close>; \<open>None\<close> is the \<open>null\<close> result\<close>
  "detectPortScanning h currentTime ports =
     (let (h1, recentPorts) = scan_each currentTime ports h [];
          h2 = sweep currentTime h1
      in (if length recentPorts \<ge> portScanThreshold
          then Some \<lparr> scan_type = ''port_scan'',
                      scan_severity = ''critical'',
                      scan_message = ''Possible port scanning detected: ''
                        @ decimal (length recentPorts) @ '' new ports opened'',
                      scan_ports = recentPorts \<rparr>
          else None, h2))"

definition analyzePorts ::
  "whitelist_file \<Rightarrow> history \<Rightarrow> (nat \<Rightarrow> int) \<Rightarrow> int \<Rightarrow> port_record list
     \<Rightarrow> alert list \<times> history" where
  \<comment> \<open>the state is \<open>this.connectionHistory\<close>; \<open>currentTime\<close> is the reading of the clock
      in \<open>detectPortScanning\<close>\<close>
  "analyzePorts file h clock currentTime ports =
     (let whitelist = loadWhitelist file;
          alerts = analyze_each whitelist clock 0 ports [];
          (portScanAlert, h') = detectPortScanning h currentTime ports
      in (case portScanAlert of
            Some a \<Rightarrow> alerts @ [Scan a]
          | None \<Rightarrow> alerts, h'))"

section \<open>Retention cleanup (\<open>Database.cleanup\<close>)\<close>

text \<open>
  A row carries its id, its timestamp and its other columns; a row of
  \<open>security_alerts\<close> carries the column \<open>resolved\<close> as well. The column \<open>timestamp\<close> holds
  what \<open>CURRENT_TIMESTAMP\<close> gave at the insert, and \<open>datetime('now', '-N days')\<close> has the
  same form (\<open>YYYY-MM-DD HH:MM:SS\<close>, UTC), so that comparing the two texts compares the
  instants: a timestamp is the count of seconds since the epoch, and the modifier
  \<open>-N days\<close> subtracts \<open>N * 86400\<close>.
\<close>

record 'c row =
  row_id :: nat
  row_timestamp :: int
  row_columns :: 'c

record 'c alert_row =
  alert_id :: nat
  alert_timestamp :: int
  resolved :: bool
  alert_columns :: 'c

record ('a, 'b, 'c, 'd) tables =
  port_snapshots :: "'a row list"
  traffic_stats :: "'b row list"
  security_alerts :: "'c alert_row list"
  connections :: "'d row list"

definition days_before :: "int \<Rightarrow> nat \<Rightarrow> int" where
  \<comment> \<open>\<open>datetime('now', '-N days')\<close> at the instant \<open>now\<close>\<close>
  "days_before now daysToKeep = now - int daysToKeep * 86400"

definition delete_where :: "bool \<Rightarrow> ('r \<Rightarrow> bool) \<Rightarrow> 'r list \<Rightarrow> 'r list" where
  \<comment> \<open>\<open>try { await this.run(`DELETE FROM t WHERE cond`) } catch { log }\<close>: a statement
      that fails leaves its table as it was\<close>
  "delete_where run_ok cond rows = (if run_ok then filter (\<lambda>r. \<not> cond r) rows else rows)"

definition cleanup ::
  "(nat \<Rightarrow> bool) \<Rightarrow> (nat \<Rightarrow> int) \<Rightarrow> nat \<Rightarrow> ('a, 'b, 'c, 'd) tables \<Rightarrow> ('a, 'b, 'c, 'd) tables" where
  \<comment> \<open>the five statements run in order; \<open>run_ok i\<close> tells whether statement \<open>i\<close> succeeds
      and \<open>now i\<close> is the instant at which it runs. The fifth, \<open>VACUUM\<close>, changes no row.\<close>
  "cleanup run_ok now daysToKeep db =
     \<lparr> port_snapshots =
         delete_where (run_ok 0)
           (\<lambda>r. row_timestamp r < days_before (now 0) daysToKeep) (port_snapshots db),
       traffic_stats =
         delete_where (run_ok 1)
           (\<lambda>r. row_timestamp r < days_before (now 1) daysToKeep) (traffic_stats db),
       security_alerts =
         delete_where (run_ok 2)
           (\<lambda>r. resolved r \<and> alert_timestamp r < days_before (now 2) daysToKeep)
           (security_alerts db),
       connections =
         delete_where (run_ok 3)
           (\<lambda>r. row_timestamp r < days_before (now 3) daysToKeep) (connections db) \<rparr>"

section \<open>Properties: decimal text and the detector's keys\<close>

lemma digit_cases: "d < 10 \<Longrightarrow> d \<in> {0, 1, 2, 3, 4, 5, 6, 7, 8, 9 :: nat}"
  by auto

lemma digit_chars_nth_digit: "d < 10 \<Longrightarrow> is_digit (digit_chars ! d)"
  using digit_cases [of d] by (auto simp: is_digit_def digit_chars_def)

lemma digit_val_nth: "d < 10 \<Longrightarrow> digit_val (digit_chars ! d) = d"
  using digit_cases [of d] by (auto simp: digit_chars_def digit_val_def)

lemma decimal_digits: "\<forall>c \<in> set (decimal n). is_digit c"
proof (induction n rule: decimal.induct)
  case (1 n)
  show ?case
  proof (cases "n < 10")
    case True
    then show ?thesis by (subst decimal.simps) (simp add: digit_chars_nth_digit)
  next
    case False
    then show ?thesis using 1 by (subst decimal.simps) (simp add: digit_chars_nth_digit)
  qed
qed

lemma parseInt_snoc: "parseInt (ds @ [c]) = 10 * parseInt ds + digit_val c"
  by (simp add: parseInt_def)

lemma parseInt_decimal: "parseInt (decimal n) = n"
proof (induction n rule: decimal.induct)
  case (1 n)
  show ?case
  proof (cases "n < 10")
    case True
    then show ?thesis by (subst decimal.simps) (simp add: parseInt_def digit_val_nth)
  next
    case False
    then show ?thesis using 1
      by (subst decimal.simps) (simp add: parseInt_snoc digit_val_nth)
  qed
qed

lemma decimal_inj: "decimal a = decimal b \<Longrightarrow> a = b"
  by (metis parseInt_decimal)

lemma underscore_not_digit: "\<not> is_digit CHR ''_''"
  by (simp add: is_digit_def digit_chars_def)

lemma split_at_first:
  "c \<notin> set u \<Longrightarrow> c \<notin> set v \<Longrightarrow> u @ c # x = v @ c # y \<Longrightarrow> u = v \<and> x = y"
proof (induction u arbitrary: v)
  case Nil
  then show ?case by (cases v) auto
next
  case (Cons a u)
  then show ?case by (cases v) auto
qed

lemma key_text_inj:
  assumes "decimal a @ CHR ''_'' # x = decimal b @ CHR ''_'' # y"
  shows "a = b \<and> x = y"
proof -
  have n: "CHR ''_'' \<notin> set (decimal a)" "CHR ''_'' \<notin> set (decimal b)"
    using decimal_digits underscore_not_digit by blast+
  have "decimal a = decimal b \<and> x = y"
    by (rule split_at_first [OF n assms])
  then show ?thesis by (simp add: decimal_inj)
qed

lemma historyKey_inj:
  assumes "historyKey p = historyKey q"
  shows "port p = port q \<and> protocol p = protocol q"
  using assms key_text_inj [of "port p" "protocol p" "port q" "protocol q"]
  by (simp add: historyKey_def)

lemma card_port_keys:
  "card (historyKey ` S) = card ((\<lambda>p. (port p, protocol p)) ` S)"
proof -
  let ?f = "\<lambda>(n, pr). decimal n @ ''_'' @ pr"
  have i: "inj ?f"
    by (rule injI) (auto dest: key_text_inj)
  have "historyKey ` S = ?f ` ((\<lambda>p. (port p, protocol p)) ` S)"
    by (auto simp: historyKey_def image_iff)
  then show ?thesis
    using card_image [OF inj_on_subset [OF i subset_UNIV], of "(\<lambda>p. (port p, protocol p)) ` S"]
    by simp
qed

section \<open>Properties: the port-scan detector\<close>

lemma newly_seen_iff:
  assumes "60000 < currentTime"
  shows "newly_seen h currentTime key =
    (case map_of h key of None \<Rightarrow> True | Some t \<Rightarrow> currentTime - t > 60000)"
  using assms by (auto simp: newly_seen_def split: option.splits)

lemma newly_seen_update:
  assumes "60000 < currentTime"
  shows "newly_seen (AList.update k currentTime h) currentTime k' =
    (k' \<noteq> k \<and> newly_seen h currentTime k')"
  using assms by (simp add: newly_seen_def update_conv')

lemma scan_each_recent:
  assumes "60000 < currentTime"
  shows "length (snd (scan_each currentTime ps h recent)) =
           length recent + card (historyKey ` {p \<in> set ps. newly_seen h currentTime (historyKey p)})
       \<and> set (snd (scan_each currentTime ps h recent)) =
           set recent \<union> port ` {p \<in> set ps. newly_seen h currentTime (historyKey p)}"
proof (induction ps arbitrary: h recent)
  case Nil
  show ?case by simp
next
  case (Cons p ps)
  let ?k = "historyKey p"
  let ?h1 = "AList.update ?k currentTime h"
  let ?B = "historyKey ` {q \<in> set ps. newly_seen h currentTime (historyKey q)}"
  let ?B1 = "historyKey ` {q \<in> set ps. newly_seen ?h1 currentTime (historyKey q)}"
  let ?P = "port ` {q \<in> set ps. newly_seen h currentTime (historyKey q)}"
  let ?P1 = "port ` {q \<in> set ps. newly_seen ?h1 currentTime (historyKey q)}"
  have fin: "finite ?B" by simp
  have B1: "?B1 = ?B - {?k}"
    by (auto simp: newly_seen_update [OF assms])
  have all: "historyKey ` {q \<in> set (p # ps). newly_seen h currentTime (historyKey q)} =
      (if newly_seen h currentTime ?k then insert ?k ?B else ?B)"
    by auto
  have allP: "port ` {q \<in> set (p # ps). newly_seen h currentTime (historyKey q)} =
      (if newly_seen h currentTime ?k then insert (port p) ?P else ?P)"
    by auto
  have P1: "insert (port p) ?P1 = insert (port p) ?P" if "newly_seen h currentTime ?k"
  proof
    show "insert (port p) ?P1 \<subseteq> insert (port p) ?P"
      by (auto simp: newly_seen_update [OF assms])
    show "insert (port p) ?P \<subseteq> insert (port p) ?P1"
    proof
      fix x assume "x \<in> insert (port p) ?P"
      then consider "x = port p" | q where "q \<in> set ps" "newly_seen h currentTime (historyKey q)" "x = port q"
        by auto
      then show "x \<in> insert (port p) ?P1"
      proof cases
        case 1
        then show ?thesis by simp
      next
        case 2
        show ?thesis
        proof (cases "historyKey q = ?k")
          case True
          then have "port q = port p" using historyKey_inj [of q p] by simp
          with 2 show ?thesis by simp
        next
          case False
          with 2 have "q \<in> {q \<in> set ps. newly_seen ?h1 currentTime (historyKey q)}"
            by (simp add: newly_seen_update [OF assms])
          with 2 show ?thesis by blast
        qed
      qed
    qed
  qed
  have P1': "?P1 = ?P" if "\<not> newly_seen h currentTime ?k"
  proof -
    have "{q \<in> set ps. newly_seen ?h1 currentTime (historyKey q)} =
          {q \<in> set ps. newly_seen h currentTime (historyKey q)}"
      using that by (auto simp: newly_seen_update [OF assms])
    then show ?thesis by simp
  qed
  show ?case
  proof (cases "newly_seen h currentTime ?k")
    case True
    have c: "card (insert ?k ?B) = Suc (card ?B1)"
      using fin by (simp add: card.insert_remove B1)
    have step: "scan_each currentTime (p # ps) h recent =
        scan_each currentTime ps ?h1 (recent @ [port p])"
      using True by simp
    have l: "length (snd (scan_each currentTime ps ?h1 (recent @ [port p]))) =
        length (recent @ [port p]) + card ?B1"
      and s: "set (snd (scan_each currentTime ps ?h1 (recent @ [port p]))) =
        set (recent @ [port p]) \<union> ?P1"
      using Cons.IH [of ?h1 "recent @ [port p]"] by blast+
    have "set (recent @ [port p]) \<union> ?P1 = set recent \<union> insert (port p) ?P1" by simp
    also have "\<dots> = set recent \<union> insert (port p) ?P" using P1 [OF True] by simp
    finally have s': "set (recent @ [port p]) \<union> ?P1 = set recent \<union> insert (port p) ?P" .
    show ?thesis
      unfolding step l s all allP s' using True c by simp
  next
    case False
    then have "?k \<notin> ?B" by auto
    then have c: "?B1 = ?B" using B1 by simp
    have step: "scan_each currentTime (p # ps) h recent = scan_each currentTime ps ?h1 recent"
      using False by simp
    have l: "length (snd (scan_each currentTime ps ?h1 recent)) = length recent + card ?B1"
      and s: "set (snd (scan_each currentTime ps ?h1 recent)) = set recent \<union> ?P1"
      using Cons.IH [of ?h1 recent] by blast+
    show ?thesis
      unfolding step l s all allP c P1' [OF False] using False by simp
  qed
qed

text \<open>
  Claim C1. Let \<open>K\<close> be the set of (port, protocol) keys of the observed records that
  are absent from the history map or whose last-seen reading is more than 60000 ms
  before the call. With at least 10 keys in \<open>K\<close> the detector returns one alert of type
  \<open>port_scan\<close> and severity \<open>critical\<close> that lists one port per key of \<open>K\<close>; with
  9 or fewer it returns \<open>null\<close>. The clock reads more than a minute past the epoch, so
  that the falsy reading 0 cannot stand for a fresh entry.
\<close>

theorem detectPortScanning_threshold:
  assumes "60000 < currentTime"
  shows "let K = set (map (\<lambda>p. (port p, protocol p))
                   (filter (\<lambda>p. case map_of h (historyKey p) of
                                   None \<Rightarrow> True
                                 | Some lastSeen \<Rightarrow> currentTime - lastSeen > 60000) ports));
             alert = fst (detectPortScanning h currentTime ports)
         in (10 \<le> card K \<longrightarrow>
               (\<exists>a. alert = Some a \<and> scan_type a = ''port_scan''
                  \<and> scan_severity a = ''critical''
                  \<and> length (scan_ports a) = card K \<and> set (scan_ports a) = fst ` K))
          \<and> (card K \<le> 9 \<longrightarrow> alert = None)"
proof -
  let ?S = "{p \<in> set ports. case map_of h (historyKey p) of
               None \<Rightarrow> True | Some lastSeen \<Rightarrow> currentTime - lastSeen > 60000}"
  let ?K = "(\<lambda>p. (port p, protocol p)) ` ?S"
  let ?recent = "snd (scan_each currentTime ports h [])"
  have S: "{p \<in> set ports. newly_seen h currentTime (historyKey p)} = ?S"
    by (simp add: newly_seen_iff [OF assms])
  have len: "length ?recent = card ?K"
    using scan_each_recent [OF assms, of ports h "[]"] by (simp add: S card_port_keys)
  have ports: "set ?recent = fst ` ?K"
    using scan_each_recent [OF assms, of ports h "[]"] by (simp add: S image_image)
  have "fst (detectPortScanning h currentTime ports) =
      (if 10 \<le> length ?recent
       then Some \<lparr> scan_type = ''port_scan'', scan_severity = ''critical'',
                   scan_message = ''Possible port scanning detected: ''
                     @ decimal (length ?recent) @ '' new ports opened'',
                   scan_ports = ?recent \<rparr>
       else None)"
    by (simp add: detectPortScanning_def portScanThreshold_def Let_def split_beta)
  then show ?thesis
    unfolding Let_def set_map set_filter using len ports by auto
qed

theorem detectPortScanning_threshold_witness:
  "60000 < (1700000000000 :: int)
   \<and> (\<exists>a. fst (detectPortScanning
              [(''22_tcp'', 1699999999000), (''80_tcp'', 1699999000000)]
              1700000000000
              (map (\<lambda>n. \<lparr>port = n, protocol = ''tcp'', process = ''unknown'', pid = None,
                           address = ''0.0.0.0'', timestamp = 0\<rparr>)
                 [22, 80, 81, 82, 83, 84, 85, 86, 87, 88, 80, 89])) = Some a
          \<and> scan_type a = ''port_scan'' \<and> scan_severity a = ''critical''
          \<and> length (scan_ports a) = 10
          \<and> set (scan_ports a) = {80, 81, 82, 83, 84, 85, 86, 87, 88, 89})
   \<and> fst (detectPortScanning
              [(''22_tcp'', 1699999999000), (''80_tcp'', 1699999000000)]
              1700000000000
              (map (\<lambda>n. \<lparr>port = n, protocol = ''tcp'', process = ''unknown'', pid = None,
                           address = ''0.0.0.0'', timestamp = 0\<rparr>)
                 [22, 80, 81, 82, 83, 84, 85, 86, 87, 88, 80])) = None"
proof -
  have t: "60000 < (1700000000000 :: int)" by simp
  show ?thesis
    using detectPortScanning_threshold [OF t,
        of "[(''22_tcp'', 1699999999000), (''80_tcp'', 1699999000000)]"
           "map (\<lambda>n. \<lparr>port = n, protocol = ''tcp'', process = ''unknown'', pid = None,
                           address = ''0.0.0.0'', timestamp = 0\<rparr>)
                 [22, 80, 81, 82, 83, 84, 85, 86, 87, 88, 80, 89]"]
      detectPortScanning_threshold [OF t,
        of "[(''22_tcp'', 1699999999000), (''80_tcp'', 1699999000000)]"
           "map (\<lambda>n. \<lparr>port = n, protocol = ''tcp'', process = ''unknown'', pid = None,
                           address = ''0.0.0.0'', timestamp = 0\<rparr>)
                 [22, 80, 81, 82, 83, 84, 85, 86, 87, 88, 80]"]
    by (auto simp add: Let_def historyKey_def decimal.simps digit_chars_def card_insert_if)
qed

text \<open>
  Claim C9. After a call of the detector at clock reading \<open>currentTime\<close>, every entry
  left in the history map has a last-seen reading at most 300000 ms before
  \<open>currentTime\<close>: the sweep has deleted every older entry.
\<close>

theorem detectPortScanning_history_window:
  "\<forall>(key, ts) \<in> set (snd (detectPortScanning h currentTime ports)). currentTime - ts \<le> 300000"
  by (auto simp: detectPortScanning_def sweep_def Let_def split_beta)

theorem detectPortScanning_history_window_witness:
  "snd (detectPortScanning [(''22_tcp'', 1000), (''80_tcp'', 1699999999000)] 1700000000000 [])
     = [(''80_tcp'', 1699999999000)]
   \<and> (1700000000000 :: int) - 1699999999000 \<le> 300000"
  using detectPortScanning_history_window
    [of "[(''22_tcp'', 1000), (''80_tcp'', 1699999999000)]" 1700000000000 "[]"]
  by (simp add: detectPortScanning_def sweep_def)

section \<open>Properties: the classifier and the whitelist\<close>

lemma analyze_each_eq:
  "analyze_each wl clock k ps alerts =
     alerts @ concat (map (\<lambda>(i, p). portAlerts (clock i) p)
                        (filter (\<lambda>(i, p). \<not> whitelisted wl p) (enumerate k ps)))"
  by (induction ps arbitrary: k alerts) simp_all

lemma portAlerts_not_scan: "\<forall>a \<in> set (portAlerts now p). \<not> is_scan a"
  by (auto simp: portAlerts_def Let_def)

lemma classifier_alerts:
  "filter (\<lambda>a. \<not> is_scan a) (fst (analyzePorts file h clock currentTime ports)) =
     concat (map (\<lambda>(i, p). portAlerts (clock i) p)
               (filter (\<lambda>(i, p). \<not> whitelisted (loadWhitelist file) p) (enumerate 0 ports)))"
proof -
  let ?own = "concat (map (\<lambda>(i, p). portAlerts (clock i) p)
               (filter (\<lambda>(i, p). \<not> whitelisted (loadWhitelist file) p) (enumerate 0 ports)))"
  have "\<forall>a \<in> set ?own. \<not> is_scan a"
    using portAlerts_not_scan by auto
  then have own: "filter (\<lambda>a. \<not> is_scan a) ?own = ?own"
    by (simp add: filter_id_conv)
  show ?thesis
    by (cases "fst (detectPortScanning h currentTime ports)")
      (simp_all add: analyzePorts_def Let_def split_beta analyze_each_eq own)
qed

lemma detailed_alert_present:
  assumes "r \<in> set ports" and "\<not> whitelisted (loadWhitelist file) r"
  shows "\<exists>i < length ports. ports ! i = r
           \<and> Detailed (detailedAlert (clock i) r)
               \<in> set (fst (analyzePorts file h clock currentTime ports))"
proof -
  from assms(1) obtain i where i: "i < length ports" "ports ! i = r"
    by (auto simp: in_set_conv_nth)
  then have "(i, r) \<in> set (filter (\<lambda>(i, p). \<not> whitelisted (loadWhitelist file) p) (enumerate 0 ports))"
    using assms(2) by (simp add: in_set_enumerate_eq)
  moreover have "Detailed (detailedAlert (clock i) r) \<in> set (portAlerts (clock i) r)"
    by (simp add: portAlerts_def Let_def)
  ultimately have "Detailed (detailedAlert (clock i) r) \<in>
      set (filter (\<lambda>a. \<not> is_scan a) (fst (analyzePorts file h clock currentTime ports)))"
    unfolding classifier_alerts by force
  then have "Detailed (detailedAlert (clock i) r) \<in> set (fst (analyzePorts file h clock currentTime ports))"
    by simp
  with i show ?thesis by blast
qed

lemma commonPorts_3000:
  "commonPorts_lookup 3000 =
     Some \<lparr> service = ''Node.js Dev'',
            description = ''Node.js Development Server'',
            entry_protocol = ''tcp'', risk = ''medium'', category = ''development'',
            recommendations =
              [''Use only for development'', ''Restrict network access'',
               ''Use environment variables for secrets''],
            commonProcesses = [''node'', ''npm'', ''yarn''] \<rparr>"
  by (simp add: commonPorts_lookup_def commonPorts_def)

lemma getPortInfo_3000_node:
  "isKnown (getPortInfo 3000 proto ''node'') \<and> \<not> isDangerous (getPortInfo 3000 proto ''node'')
   \<and> risk (getPortInfo 3000 proto ''node'') = ''medium''
   \<and> isDevelopment (getPortInfo 3000 proto ''node'')
   \<and> processMatch (getPortInfo 3000 proto ''node'')"
  by (simp add: getPortInfo_def commonPorts_3000 dangerousPorts_def developmentPorts_def
      toLowerCase_def)

lemma generateSecurityAlert_3000_node:
  "sa_type (generateSecurityAlert now 3000 proto ''node'' addr) =
     (if addr \<noteq> ''127.0.0.1'' \<and> addr \<noteq> ''localhost'' then ''dev_service_exposed'' else ''info'')
   \<and> sa_severity (generateSecurityAlert now 3000 proto ''node'' addr) =
     (if addr \<noteq> ''127.0.0.1'' \<and> addr \<noteq> ''localhost'' then ''high'' else ''low'')"
  using getPortInfo_3000_node [of proto]
  by (simp add: generateSecurityAlert_def Let_def)

text \<open>
  Claim C2. The alerts of \<open>analyzePorts\<close> other than the port-scan alert are the
  alerts of its records one after the other, and a record whose port is in the
  whitelist's ports or whose process is in the whitelist's processes contributes none:
  no detailed alert, no suspicious-process alert, no privilege-violation alert.
\<close>

theorem analyzePorts_skips_whitelisted:
  "filter (\<lambda>a. \<not> is_scan a) (fst (analyzePorts file h clock currentTime ports)) =
     concat (map (\<lambda>(i, p).
                    if port p \<in> set (wl_ports (loadWhitelist file))
                       \<or> process p \<in> set (wl_processes (loadWhitelist file))
                    then [] else portAlerts (clock i) p)
               (enumerate 0 ports))"
proof -
  have "concat (map (\<lambda>(i, p). portAlerts (clock i) p) (filter (\<lambda>(i, p). \<not> whitelisted wl p) xs)) =
        concat (map (\<lambda>(i, p). if port p \<in> set (wl_ports wl) \<or> process p \<in> set (wl_processes wl)
                                then [] else portAlerts (clock i) p) xs)"
    for wl and xs :: "(nat \<times> port_record) list"
    by (induction xs) (auto simp: whitelisted_def)
  then show ?thesis
    by (simp add: classifier_alerts)
qed

theorem analyzePorts_skips_whitelisted_witness:
  "map (\<lambda>a. (alert_type a, alert_severity a))
     (filter (\<lambda>a. \<not> is_scan a)
        (fst (analyzePorts (Some \<lparr>wl_ports = [22], wl_processes = [''nginx'']\<rparr>) [] (\<lambda>k. int k)
           1700000000000
           [\<lparr>port = 22, protocol = ''tcp'', process = ''sshd'', pid = Some 1234,
              address = ''0.0.0.0'', timestamp = 0\<rparr>,
            \<lparr>port = 80, protocol = ''tcp'', process = ''nginx'', pid = Some 5678,
              address = ''0.0.0.0'', timestamp = 0\<rparr>,
            \<lparr>port = 3000, protocol = ''tcp'', process = ''node'', pid = Some 4242,
              address = ''0.0.0.0'', timestamp = 0\<rparr>])))
   = [(''dev_service_exposed'', ''high'')]"
proof -
  have "map (\<lambda>a. (alert_type a, alert_severity a))
          (portAlerts now \<lparr>port = 3000, protocol = ''tcp'', process = ''node'', pid = Some 4242,
              address = ''0.0.0.0'', timestamp = 0\<rparr>) = [(''dev_service_exposed'', ''high'')]" for now
    using generateSecurityAlert_3000_node [of now "''tcp''" "''0.0.0.0''"]
    by (simp add: portAlerts_def detailedAlert_def Let_def test_i_def toLowerCase_def
        suspiciousPatterns_def lit_def)
  then show ?thesis
    using analyzePorts_skips_whitelisted
      [of "Some \<lparr>wl_ports = [22], wl_processes = [''nginx'']\<rparr>" "[]" "\<lambda>k. int k" 1700000000000
          "[\<lparr>port = 22, protocol = ''tcp'', process = ''sshd'', pid = Some 1234,
              address = ''0.0.0.0'', timestamp = 0\<rparr>,
            \<lparr>port = 80, protocol = ''tcp'', process = ''nginx'', pid = Some 5678,
              address = ''0.0.0.0'', timestamp = 0\<rparr>,
            \<lparr>port = 3000, protocol = ''tcp'', process = ''node'', pid = Some 4242,
              address = ''0.0.0.0'', timestamp = 0\<rparr>]"]
    by (simp add: loadWhitelist_def enumerate_eq_zip)
qed

text \<open>
  Claim C10. \<open>removeFromWhitelist\<close> writes back the whitelist with the port filtered
  out of \<open>ports\<close> and with \<open>processes\<close> as it was, so a record whose process name is in
  \<open>processes\<close> is still skipped by the classifier afterwards. When the write fails the
  call is rejected and the file stays as it was.
\<close>

theorem removeFromWhitelist_keeps_processes:
  "(\<exists>file'. removeFromWhitelist file True portNo = Inr file'
       \<and> wl_ports (loadWhitelist file') = filter (\<lambda>p. p \<noteq> portNo) (wl_ports (loadWhitelist file))
       \<and> portNo \<notin> set (wl_ports (loadWhitelist file'))
       \<and> wl_processes (loadWhitelist file') = wl_processes (loadWhitelist file)
       \<and> (\<forall>r. process r \<in> set (wl_processes (loadWhitelist file)) \<longrightarrow>
              whitelisted (loadWhitelist file') r
              \<and> filter (\<lambda>a. \<not> is_scan a) (fst (analyzePorts file' h clock currentTime [r])) = []))
   \<and> removeFromWhitelist file False portNo = Inl WriteError"
proof -
  let ?wl = "loadWhitelist file"
  let ?file' = "Some (?wl\<lparr> wl_ports := filter (\<lambda>p. p \<noteq> portNo) (wl_ports ?wl) \<rparr>)"
  have r: "removeFromWhitelist file True portNo = Inr ?file'"
    by (simp add: removeFromWhitelist_def saveWhitelist_def Let_def)
  have l: "loadWhitelist ?file' = ?wl\<lparr> wl_ports := filter (\<lambda>p. p \<noteq> portNo) (wl_ports ?wl) \<rparr>"
    by (simp add: loadWhitelist_def)
  have w: "whitelisted (loadWhitelist ?file') r
      \<and> filter (\<lambda>a. \<not> is_scan a) (fst (analyzePorts ?file' h clock currentTime [r])) = []"
    if "process r \<in> set (wl_processes ?wl)" for r
    using that by (simp add: classifier_alerts l whitelisted_def)
  have f: "removeFromWhitelist file False portNo = Inl WriteError"
    by (simp add: removeFromWhitelist_def saveWhitelist_def Let_def)
  show ?thesis
    using r l w f by simp
qed

theorem removeFromWhitelist_keeps_processes_witness:
  "removeFromWhitelist (Some \<lparr>wl_ports = [22, 80], wl_processes = [''sshd'', ''nginx'']\<rparr>) True 80
     = Inr (Some \<lparr>wl_ports = [22], wl_processes = [''sshd'', ''nginx'']\<rparr>)
   \<and> filter (\<lambda>a. \<not> is_scan a)
       (fst (analyzePorts (Some \<lparr>wl_ports = [22], wl_processes = [''sshd'', ''nginx'']\<rparr>) []
          (\<lambda>k. 0) 1700000000000
          [\<lparr>port = 80, protocol = ''tcp'', process = ''nginx'', pid = Some 5678,
             address = ''0.0.0.0'', timestamp = 0\<rparr>])) = []"
proof -
  let ?f = "Some \<lparr>wl_ports = [22, 80], wl_processes = [''sshd'', ''nginx'']\<rparr>"
  have e: "removeFromWhitelist ?f True 80
     = Inr (Some \<lparr>wl_ports = [22], wl_processes = [''sshd'', ''nginx'']\<rparr>)"
    by (simp add: removeFromWhitelist_def saveWhitelist_def loadWhitelist_def Let_def)
  have p: "process \<lparr>port = 80, protocol = ''tcp'', process = ''nginx'', pid = Some 5678,
             address = ''0.0.0.0'', timestamp = 0\<rparr> \<in> set (wl_processes (loadWhitelist ?f))"
    by (simp add: loadWhitelist_def)
  show ?thesis
    using removeFromWhitelist_keeps_processes [of ?f 80 "[]" "\<lambda>k. 0" 1700000000000] e p
    by auto
qed

lemma isDangerous_getPortInfo:
  "isDangerous (getPortInfo portNo proto proc) = (portNo \<in> set dangerousPorts)"
  by (simp add: getPortInfo_def Let_def split_beta split: option.splits)

lemma generateSecurityAlert_dangerous:
  assumes "portNo \<in> set dangerousPorts"
  shows "sa_type (generateSecurityAlert now portNo proto proc addr) = ''dangerous_port''
       \<and> sa_severity (generateSecurityAlert now portNo proto proc addr) = ''critical''"
  using assms by (simp add: generateSecurityAlert_def Let_def isDangerous_getPortInfo)

text \<open>
  Claim C6. A record of the observed list that is not whitelisted and whose port is in
  the static set \<open>dangerousPorts\<close> (port 23 among them) has its detailed alert among
  the alerts of \<open>analyzePorts\<close>, and that alert has severity \<open>critical\<close> and type
  \<open>dangerous_port\<close>, whatever the process, the address and the protocol are and
  whatever the later rules of the decision order would say.
\<close>

theorem dangerous_port_alert:
  assumes "r \<in> set ports" and "port r \<in> set dangerousPorts"
    and "\<not> whitelisted (loadWhitelist file) r"
  shows "\<exists>i < length ports. ports ! i = r
           \<and> Detailed (detailedAlert (clock i) r)
               \<in> set (fst (analyzePorts file h clock currentTime ports))
           \<and> da_port (detailedAlert (clock i) r) = port r
           \<and> da_severity (detailedAlert (clock i) r) = ''critical''
           \<and> da_type (detailedAlert (clock i) r) = ''dangerous_port''"
proof -
  have "da_port (detailedAlert now r) = port r
      \<and> da_severity (detailedAlert now r) = ''critical''
      \<and> da_type (detailedAlert now r) = ''dangerous_port''" for now
    using assms(2) by (simp add: detailedAlert_def Let_def generateSecurityAlert_dangerous)
  then show ?thesis
    using detailed_alert_present [OF assms(1) assms(3), of clock h currentTime] by blast
qed

theorem dangerous_port_alert_witness:
  "\<lparr>port = 23, protocol = ''tcp'', process = ''telnetd'', pid = Some 77,
      address = ''0.0.0.0'', timestamp = 0\<rparr>
     \<in> set [\<lparr>port = 22, protocol = ''tcp'', process = ''sshd'', pid = Some 1234,
                address = ''0.0.0.0'', timestamp = 0\<rparr>,
              \<lparr>port = 23, protocol = ''tcp'', process = ''telnetd'', pid = Some 77,
                address = ''0.0.0.0'', timestamp = 0\<rparr>]
   \<and> 23 \<in> set dangerousPorts
   \<and> \<not> whitelisted (loadWhitelist (Some \<lparr>wl_ports = [22], wl_processes = []\<rparr>))
         \<lparr>port = 23, protocol = ''tcp'', process = ''telnetd'', pid = Some 77,
          address = ''0.0.0.0'', timestamp = 0\<rparr>
   \<and> (\<exists>d. Detailed d \<in> set (fst (analyzePorts (Some \<lparr>wl_ports = [22], wl_processes = []\<rparr>) []
                 (\<lambda>k. 0) 1700000000000
                 [\<lparr>port = 22, protocol = ''tcp'', process = ''sshd'', pid = Some 1234,
                    address = ''0.0.0.0'', timestamp = 0\<rparr>,
                  \<lparr>port = 23, protocol = ''tcp'', process = ''telnetd'', pid = Some 77,
                    address = ''0.0.0.0'', timestamp = 0\<rparr>]))
          \<and> da_port d = 23 \<and> da_severity d = ''critical'' \<and> da_type d = ''dangerous_port'')"
proof -
  let ?f = "Some \<lparr>wl_ports = [22], wl_processes = []\<rparr>"
  let ?a = "\<lparr>port = 22, protocol = ''tcp'', process = ''sshd'', pid = Some 1234,
             address = ''0.0.0.0'', timestamp = 0\<rparr>"
  let ?r = "\<lparr>port = 23, protocol = ''tcp'', process = ''telnetd'', pid = Some 77,
             address = ''0.0.0.0'', timestamp = 0\<rparr>"
  have m: "?r \<in> set [?a, ?r]" by simp
  have a: "port ?r \<in> set dangerousPorts" by (simp add: dangerousPorts_def)
  have b: "\<not> whitelisted (loadWhitelist ?f) ?r"
    by (simp add: whitelisted_def loadWhitelist_def)
  from dangerous_port_alert [OF m a b, of "\<lambda>k. 0" "[]" 1700000000000]
  have "\<exists>d. Detailed d \<in> set (fst (analyzePorts ?f [] (\<lambda>k. 0) 1700000000000 [?a, ?r]))
          \<and> da_port d = 23 \<and> da_severity d = ''critical'' \<and> da_type d = ''dangerous_port''"
    by auto
  with m a b show ?thesis by simp
qed

text \<open>
  Claim C5. A record of the observed list that is not whitelisted, with port 3000 and
  process \<open>node\<close>, has its detailed alert among the alerts of \<open>analyzePorts\<close>; that
  alert is \<open>low\<close> and \<open>info\<close> when the record is bound to \<open>127.0.0.1\<close>, and \<open>high\<close> and
  \<open>dev_service_exposed\<close> when it is bound to \<open>0.0.0.0\<close>.
\<close>

theorem node_dev_port_classification:
  assumes "r \<in> set ports" and "port r = 3000" and "process r = ''node''"
    and "\<not> whitelisted (loadWhitelist file) r"
  shows "\<exists>i < length ports. ports ! i = r
           \<and> Detailed (detailedAlert (clock i) r)
               \<in> set (fst (analyzePorts file h clock currentTime ports))
           \<and> (address r = ''127.0.0.1'' \<longrightarrow>
                 da_severity (detailedAlert (clock i) r) = ''low''
                 \<and> da_type (detailedAlert (clock i) r) = ''info'')
           \<and> (address r = ''0.0.0.0'' \<longrightarrow>
                 da_severity (detailedAlert (clock i) r) = ''high''
                 \<and> da_type (detailedAlert (clock i) r) = ''dev_service_exposed'')"
proof -
  have "(address r = ''127.0.0.1'' \<longrightarrow>
           da_severity (detailedAlert now r) = ''low'' \<and> da_type (detailedAlert now r) = ''info'')
      \<and> (address r = ''0.0.0.0'' \<longrightarrow>
           da_severity (detailedAlert now r) = ''high''
           \<and> da_type (detailedAlert now r) = ''dev_service_exposed'')" for now
    using assms(2,3) by (simp add: detailedAlert_def Let_def generateSecurityAlert_3000_node)
  then show ?thesis
    using detailed_alert_present [OF assms(1) assms(4), of clock h currentTime] by blast
qed

theorem node_dev_port_classification_witness:
  "\<not> whitelisted (loadWhitelist (Some \<lparr>wl_ports = [22], wl_processes = [''sshd'']\<rparr>))
       \<lparr>port = 3000, protocol = ''tcp'', process = ''node'', pid = Some 4242,
        address = ''127.0.0.1'', timestamp = 0\<rparr>
   \<and> (\<exists>d. Detailed d \<in> set (fst (analyzePorts
                 (Some \<lparr>wl_ports = [22], wl_processes = [''sshd'']\<rparr>) [] (\<lambda>k. 0) 1700000000000
                 [\<lparr>port = 3000, protocol = ''tcp'', process = ''node'', pid = Some 4242,
                    address = ''127.0.0.1'', timestamp = 0\<rparr>]))
          \<and> da_port d = 3000 \<and> da_address d = ''127.0.0.1''
          \<and> da_severity d = ''low'' \<and> da_type d = ''info'')
   \<and> (\<exists>d. Detailed d \<in> set (fst (analyzePorts
                 (Some \<lparr>wl_ports = [22], wl_processes = [''sshd'']\<rparr>) [] (\<lambda>k. 0) 1700000000000
                 [\<lparr>port = 3000, protocol = ''tcp'', process = ''node'', pid = Some 4242,
                    address = ''0.0.0.0'', timestamp = 0\<rparr>]))
          \<and> da_port d = 3000 \<and> da_address d = ''0.0.0.0''
          \<and> da_severity d = ''high'' \<and> da_type d = ''dev_service_exposed'')"
proof -
  let ?f = "Some \<lparr>wl_ports = [22], wl_processes = [''sshd'']\<rparr>"
  let ?a = "\<lparr>port = 3000, protocol = ''tcp'', process = ''node'', pid = Some 4242,
             address = ''127.0.0.1'', timestamp = 0\<rparr>"
  let ?b = "\<lparr>port = 3000, protocol = ''tcp'', process = ''node'', pid = Some 4242,
             address = ''0.0.0.0'', timestamp = 0\<rparr>"
  have wa: "\<not> whitelisted (loadWhitelist ?f) ?a" and wb: "\<not> whitelisted (loadWhitelist ?f) ?b"
    by (simp_all add: whitelisted_def loadWhitelist_def)
  have ma: "?a \<in> set [?a]" and mb: "?b \<in> set [?b]"
    by simp_all
  have pa: "port ?a = 3000" "process ?a = ''node''" and pb: "port ?b = 3000" "process ?b = ''node''"
    by simp_all
  have da: "da_port (detailedAlert now ?a) = 3000 \<and> da_address (detailedAlert now ?a) = ''127.0.0.1''"
    and db: "da_port (detailedAlert now ?b) = 3000 \<and> da_address (detailedAlert now ?b) = ''0.0.0.0''"
    for now
    by (simp_all add: detailedAlert_def Let_def)
  from node_dev_port_classification [OF ma pa wa, of "\<lambda>k. 0" "[]" 1700000000000] da
  have A: "\<exists>d. Detailed d \<in> set (fst (analyzePorts ?f [] (\<lambda>k. 0) 1700000000000 [?a]))
          \<and> da_port d = 3000 \<and> da_address d = ''127.0.0.1''
          \<and> da_severity d = ''low'' \<and> da_type d = ''info''"
    by auto
  from node_dev_port_classification [OF mb pb wb, of "\<lambda>k. 0" "[]" 1700000000000] db
  have B: "\<exists>d. Detailed d \<in> set (fst (analyzePorts ?f [] (\<lambda>k. 0) 1700000000000 [?b]))
          \<and> da_port d = 3000 \<and> da_address d = ''0.0.0.0''
          \<and> da_severity d = ''high'' \<and> da_type d = ''dev_service_exposed''"
    by auto
  from wa A B show ?thesis by (intro conjI)
qed

section \<open>Properties: the reader's cache on failure\<close>

text \<open>
  Claim C8. When both commands are rejected, \<open>getActivePorts\<close> resolves to the cached
  list and leaves the monitor as it was; for a new monitor that list is empty. Whatever
  the two commands do, the call resolves: no rejection reaches the caller.
\<close>

theorem getActivePorts_total_failure:
  "getActivePorts m now now' clock (Inl e1) (Inl e2) = Inr (cachedPorts m, m)
   \<and> getActivePorts new_monitor now now' clock (Inl e1) (Inl e2) = Inr ([], new_monitor)
   \<and> (\<exists>result. getActivePorts m now now' clock ss netstat = Inr result)"
proof -
  have a: "getActivePorts m' now now' clock (Inl e1) (Inl e2) = Inr (cachedPorts m', m')" for m'
    by (simp add: getActivePorts_def getActivePorts_body_def Let_def)
  have b: "\<exists>result. getActivePorts m now now' clock ss netstat = Inr result"
    by (cases "getActivePorts_body m now now' clock ss netstat") (simp_all add: getActivePorts_def)
  show ?thesis
    using a [of m] a [of new_monitor] b by (simp add: new_monitor_def)
qed

theorem getActivePorts_total_failure_witness:
  "getActivePorts
     \<lparr>cachedPorts = [\<lparr>port = 22, protocol = ''tcp'', process = ''sshd'', pid = Some 1234,
                       address = ''0.0.0.0'', timestamp = 1699999990000\<rparr>],
      lastUpdate = 1699999990000, cacheTimeout = 5000\<rparr>
     1700000000000 1700000000100 (\<lambda>k. 1700000000050) (Inl ExecError) (Inl ExecError)
   = Inr ([\<lparr>port = 22, protocol = ''tcp'', process = ''sshd'', pid = Some 1234,
            address = ''0.0.0.0'', timestamp = 1699999990000\<rparr>],
          \<lparr>cachedPorts = [\<lparr>port = 22, protocol = ''tcp'', process = ''sshd'', pid = Some 1234,
                            address = ''0.0.0.0'', timestamp = 1699999990000\<rparr>],
           lastUpdate = 1699999990000, cacheTimeout = 5000\<rparr>)"
  using getActivePorts_total_failure
    [of "\<lparr>cachedPorts = [\<lparr>port = 22, protocol = ''tcp'', process = ''sshd'', pid = Some 1234,
                       address = ''0.0.0.0'', timestamp = 1699999990000\<rparr>],
      lastUpdate = 1699999990000, cacheTimeout = 5000\<rparr>"
      1700000000000 1700000000100 "\<lambda>k. 1700000000050" ExecError ExecError]
  by simp

section \<open>Properties: retention cleanup\<close>

text \<open>
  Claim C3 does not hold of \<open>security_alerts\<close>: its statement deletes resolved rows
  only, so an unresolved alert older than the horizon stays.
\<close>

theorem cleanup_keeps_unresolved_alert_counterexample:
  "alert_timestamp \<lparr>alert_id = 1, alert_timestamp = 1600000000, resolved = False,
                     alert_columns = ()\<rparr> < days_before 1700000000 30
   \<and> security_alerts
       (cleanup (\<lambda>i. True) (\<lambda>i. 1700000000) 30
          \<lparr>port_snapshots = ([] :: unit row list), traffic_stats = ([] :: unit row list),
           security_alerts = [\<lparr>alert_id = 1, alert_timestamp = 1600000000, resolved = False,
                                alert_columns = ()\<rparr>],
           connections = ([] :: unit row list)\<rparr>)
     = [\<lparr>alert_id = 1, alert_timestamp = 1600000000, resolved = False, alert_columns = ()\<rparr>]"
  by (simp add: cleanup_def delete_where_def days_before_def)

text \<open>
  Claim C3, amended. Each \<open>DELETE\<close> statement that succeeds keeps of \<open>port_snapshots\<close>,
  \<open>traffic_stats\<close> and \<open>connections\<close> exactly the rows whose timestamp is not strictly
  older than \<open>daysToKeep\<close> days before the instant the statement runs, and of
  \<open>security_alerts\<close> exactly the rows that are unresolved or not older than that horizon.
  A statement that fails leaves its table as it was.
\<close>

theorem cleanup_retention:
  "(run_ok 0 \<longrightarrow> port_snapshots (cleanup run_ok now daysToKeep db) =
       filter (\<lambda>r. days_before (now 0) daysToKeep \<le> row_timestamp r) (port_snapshots db))
   \<and> (run_ok 1 \<longrightarrow> traffic_stats (cleanup run_ok now daysToKeep db) =
       filter (\<lambda>r. days_before (now 1) daysToKeep \<le> row_timestamp r) (traffic_stats db))
   \<and> (run_ok 2 \<longrightarrow> security_alerts (cleanup run_ok now daysToKeep db) =
       filter (\<lambda>r. \<not> resolved r \<or> days_before (now 2) daysToKeep \<le> alert_timestamp r)
         (security_alerts db))
   \<and> (run_ok 3 \<longrightarrow> connections (cleanup run_ok now daysToKeep db) =
       filter (\<lambda>r. days_before (now 3) daysToKeep \<le> row_timestamp r) (connections db))
   \<and> (\<not> run_ok 0 \<longrightarrow> port_snapshots (cleanup run_ok now daysToKeep db) = port_snapshots db)
   \<and> (\<not> run_ok 1 \<longrightarrow> traffic_stats (cleanup run_ok now daysToKeep db) = traffic_stats db)
   \<and> (\<not> run_ok 2 \<longrightarrow> security_alerts (cleanup run_ok now daysToKeep db) = security_alerts db)
   \<and> (\<not> run_ok 3 \<longrightarrow> connections (cleanup run_ok now daysToKeep db) = connections db)"
  by (simp add: cleanup_def delete_where_def not_less)

theorem cleanup_retention_witness:
  "port_snapshots
     (cleanup (\<lambda>i. i \<noteq> 3) (\<lambda>i. 1700000000 + int i) 30
        \<lparr>port_snapshots =
           [\<lparr>row_id = 1, row_timestamp = 1600000000, row_columns = ()\<rparr>,
            \<lparr>row_id = 2, row_timestamp = 1697408000, row_columns = ()\<rparr>,
            \<lparr>row_id = 3, row_timestamp = 1697407999, row_columns = ()\<rparr>],
         traffic_stats = [\<lparr>row_id = 1, row_timestamp = 1600000000, row_columns = ()\<rparr>],
         security_alerts =
           [\<lparr>alert_id = 1, alert_timestamp = 1600000000, resolved = True, alert_columns = ()\<rparr>,
            \<lparr>alert_id = 2, alert_timestamp = 1600000000, resolved = False, alert_columns = ()\<rparr>],
         connections = [\<lparr>row_id = 1, row_timestamp = 1600000000, row_columns = ()\<rparr>]\<rparr>)
     = [\<lparr>row_id = 2, row_timestamp = 1697408000, row_columns = ()\<rparr>]
   \<and> traffic_stats
     (cleanup (\<lambda>i. i \<noteq> 3) (\<lambda>i. 1700000000 + int i) 30
        \<lparr>port_snapshots =
           [\<lparr>row_id = 1, row_timestamp = 1600000000, row_columns = ()\<rparr>,
            \<lparr>row_id = 2, row_timestamp = 1697408000, row_columns = ()\<rparr>,
            \<lparr>row_id = 3, row_timestamp = 1697407999, row_columns = ()\<rparr>],
         traffic_stats = [\<lparr>row_id = 1, row_timestamp = 1600000000, row_columns = ()\<rparr>],
         security_alerts =
           [\<lparr>alert_id = 1, alert_timestamp = 1600000000, resolved = True, alert_columns = ()\<rparr>,
            \<lparr>alert_id = 2, alert_timestamp = 1600000000, resolved = False, alert_columns = ()\<rparr>],
         connections = [\<lparr>row_id = 1, row_timestamp = 1600000000, row_columns = ()\<rparr>]\<rparr>)
     = []
   \<and> security_alerts
     (cleanup (\<lambda>i. i \<noteq> 3) (\<lambda>i. 1700000000 + int i) 30
        \<lparr>port_snapshots =
           [\<lparr>row_id = 1, row_timestamp = 1600000000, row_columns = ()\<rparr>,
            \<lparr>row_id = 2, row_timestamp = 1697408000, row_columns = ()\<rparr>,
            \<lparr>row_id = 3, row_timestamp = 1697407999, row_columns = ()\<rparr>],
         traffic_stats = [\<lparr>row_id = 1, row_timestamp = 1600000000, row_columns = ()\<rparr>],
         security_alerts =
           [\<lparr>alert_id = 1, alert_timestamp = 1600000000, resolved = True, alert_columns = ()\<rparr>,
            \<lparr>alert_id = 2, alert_timestamp = 1600000000, resolved = False, alert_columns = ()\<rparr>],
         connections = [\<lparr>row_id = 1, row_timestamp = 1600000000, row_columns = ()\<rparr>]\<rparr>)
     = [\<lparr>alert_id = 2, alert_timestamp = 1600000000, resolved = False, alert_columns = ()\<rparr>]
   \<and> connections
     (cleanup (\<lambda>i. i \<noteq> 3) (\<lambda>i. 1700000000 + int i) 30
        \<lparr>port_snapshots =
           [\<lparr>row_id = 1, row_timestamp = 1600000000, row_columns = ()\<rparr>,
            \<lparr>row_id = 2, row_timestamp = 1697408000, row_columns = ()\<rparr>,
            \<lparr>row_id = 3, row_timestamp = 1697407999, row_columns = ()\<rparr>],
         traffic_stats = [\<lparr>row_id = 1, row_timestamp = 1600000000, row_columns = ()\<rparr>],
         security_alerts =
           [\<lparr>alert_id = 1, alert_timestamp = 1600000000, resolved = True, alert_columns = ()\<rparr>,
            \<lparr>alert_id = 2, alert_timestamp = 1600000000, resolved = False, alert_columns = ()\<rparr>],
         connections = [\<lparr>row_id = 1, row_timestamp = 1600000000, row_columns = ()\<rparr>]\<rparr>)
     = [\<lparr>row_id = 1, row_timestamp = 1600000000, row_columns = ()\<rparr>]"
  using cleanup_retention [of "\<lambda>i. i \<noteq> 3" "\<lambda>i. 1700000000 + int i" 30
        "\<lparr>port_snapshots =
           [\<lparr>row_id = 1, row_timestamp = 1600000000, row_columns = ()\<rparr>,
            \<lparr>row_id = 2, row_timestamp = 1697408000, row_columns = ()\<rparr>,
            \<lparr>row_id = 3, row_timestamp = 1697407999, row_columns = ()\<rparr>],
         traffic_stats = [\<lparr>row_id = 1, row_timestamp = 1600000000, row_columns = ()\<rparr>],
         security_alerts =
           [\<lparr>alert_id = 1, alert_timestamp = 1600000000, resolved = True, alert_columns = ()\<rparr>,
            \<lparr>alert_id = 2, alert_timestamp = 1600000000, resolved = False, alert_columns = ()\<rparr>],
         connections = [\<lparr>row_id = 1, row_timestamp = 1600000000, row_columns = ()\<rparr>]\<rparr>"]
  by (simp add: days_before_def)

section \<open>Properties: the regular-expression matcher\<close>

lemma rx_run_Plus_set:
  "set (rx_run (Plus r) s c) =
     (\<Union>x \<in> set (rx_run r s c).
        set ((if length (snd x) < length s then rx_run (Plus r) (snd x) (fst x) else []) @ [x]))"
  by (subst rx_run.simps(6)) (simp add: split_beta)

lemma rx_run_Plus_mem:
  "(c', s') \<in> set (rx_run (Plus r) s c) \<longleftrightarrow>
     (\<exists>c1 s1. (c1, s1) \<in> set (rx_run r s c) \<and>
        ((length s1 < length s \<and> (c', s') \<in> set (rx_run (Plus r) s1 c1)) \<or> (c', s') = (c1, s1)))"
  (is "?L \<longleftrightarrow> ?R")
proof
  assume ?L
  then obtain x where x: "x \<in> set (rx_run r s c)"
    and m: "(c', s') \<in> set ((if length (snd x) < length s
                               then rx_run (Plus r) (snd x) (fst x) else []) @ [x])"
    unfolding rx_run_Plus_set [of r s c] by blast
  obtain c1 s1 where p: "x = (c1, s1)" by (cases x)
  from m p have "(length s1 < length s \<and> (c', s') \<in> set (rx_run (Plus r) s1 c1)) \<or> (c', s') = (c1, s1)"
    by (cases "length s1 < length s") auto
  with x p show ?R by blast
next
  assume ?R
  then obtain c1 s1 where x: "(c1, s1) \<in> set (rx_run r s c)"
    and d: "(length s1 < length s \<and> (c', s') \<in> set (rx_run (Plus r) s1 c1)) \<or> (c', s') = (c1, s1)"
    by blast
  from d have "(c', s') \<in> set ((if length (snd (c1, s1)) < length s
                               then rx_run (Plus r) (snd (c1, s1)) (fst (c1, s1)) else []) @ [(c1, s1)])"
    by (cases "length s1 < length s") auto
  with x show ?L
    unfolding rx_run_Plus_set [of r s c] by blast
qed

lemma rx_run_suffix:
  "(c', s') \<in> set (rx_run r s c) \<Longrightarrow> \<exists>w. s = w @ s'"
proof (induction r s c arbitrary: c' s' rule: rx_run.induct)
  case (1 s c)
  then show ?case by simp
next
  case (2 a s c)
  then show ?case by (cases s) (auto split: if_splits)
next
  case (3 k s c)
  then show ?case by (cases s) (auto split: if_splits)
next
  case (4 r1 r2 s c)
  from "4.prems" obtain c1 s1 where m: "(c1, s1) \<in> set (rx_run r1 s c)"
    and n: "(c', s') \<in> set (rx_run r2 s1 c1)"
    by auto
  from "4.IH"(1) [OF m] obtain w1 where "s = w1 @ s1" by blast
  moreover from "4.IH"(2) [OF m refl n] obtain w2 where "s1 = w2 @ s'" by blast
  ultimately show ?case by simp
next
  case (5 r1 r2 s c)
  then show ?case by auto
next
  case (6 r s c)
  from "6.prems" obtain c1 s1 where m: "(c1, s1) \<in> set (rx_run r s c)"
    and n: "(length s1 < length s \<and> (c', s') \<in> set (rx_run (Plus r) s1 c1)) \<or> (c', s') = (c1, s1)"
    using rx_run_Plus_mem [of c' s' r s c] by blast
  from "6.IH"(1) [OF m] obtain w1 where w1: "s = w1 @ s1" by blast
  from n show ?case
  proof
    assume a: "length s1 < length s \<and> (c', s') \<in> set (rx_run (Plus r) s1 c1)"
    then obtain w2 where "s1 = w2 @ s'"
      using "6.IH"(2) [OF m refl] by blast
    with w1 show ?thesis by simp
  next
    assume "(c', s') = (c1, s1)"
    with w1 show ?thesis by simp
  qed
next
  case (7 n r s c)
  then show ?case by auto
qed

lemma rx_run_keeps:
  "(c', s') \<in> set (rx_run r s c) \<Longrightarrow> n \<notin> groups r \<Longrightarrow> map_of c' n = map_of c n"
proof (induction r s c arbitrary: c' s' rule: rx_run.induct)
  case (1 s c)
  then show ?case by simp
next
  case (2 a s c)
  then show ?case by (cases s) (auto split: if_splits)
next
  case (3 k s c)
  then show ?case by (cases s) (auto split: if_splits)
next
  case (4 r1 r2 s c)
  from "4.prems" obtain c1 s1 where m: "(c1, s1) \<in> set (rx_run r1 s c)"
    and n: "(c', s') \<in> set (rx_run r2 s1 c1)"
    by auto
  have "map_of c1 n = map_of c n" using "4.IH"(1) [OF m] "4.prems" by simp
  moreover have "map_of c' n = map_of c1 n" using "4.IH"(2) [OF m refl n] "4.prems" by simp
  ultimately show ?case by simp
next
  case (5 r1 r2 s c)
  then show ?case by auto
next
  case (6 r s c)
  from "6.prems" obtain c1 s1 where m: "(c1, s1) \<in> set (rx_run r s c)"
    and n: "(length s1 < length s \<and> (c', s') \<in> set (rx_run (Plus r) s1 c1)) \<or> (c', s') = (c1, s1)"
    using rx_run_Plus_mem [of c' s' r s c] by blast
  have k: "map_of c1 n = map_of c n" using "6.IH"(1) [OF m] "6.prems" by simp
  from n show ?case
  proof
    assume a: "length s1 < length s \<and> (c', s') \<in> set (rx_run (Plus r) s1 c1)"
    then have "map_of c' n = map_of c1 n"
      using "6.IH"(2) [OF m refl, of c' s'] "6.prems"(2) by simp
    with k show ?thesis by simp
  next
    assume "(c', s') = (c1, s1)"
    with k show ?thesis by simp
  qed
next
  case (7 m r s c)
  then show ?case by auto
qed

lemma rx_run_digits:
  "(c', s') \<in> set (rx_run (Plus (Cl Digit)) s c) \<Longrightarrow>
     c' = c \<and> (\<exists>w. s = w @ s' \<and> w \<noteq> [] \<and> (\<forall>ch \<in> set w. is_digit ch))"
proof (induction s arbitrary: c' s' c)
  case Nil
  then show ?case by (simp add: rx_run_Plus_mem [of c' s' "Cl Digit" "[]"])
next
  case (Cons x xs)
  show ?case
  proof (cases "is_digit x")
    case False
    with Cons.prems show ?thesis by (simp add: rx_run_Plus_mem [of c' s' "Cl Digit" "x # xs"])
  next
    case True
    with Cons.prems have "(c', s') \<in> set (rx_run (Plus (Cl Digit)) xs c) \<or> (c', s') = (c, xs)"
      by (auto simp: rx_run_Plus_mem [of c' s' "Cl Digit" "x # xs"])
    then show ?thesis
    proof
      assume "(c', s') \<in> set (rx_run (Plus (Cl Digit)) xs c)"
      from Cons.IH [OF this] obtain w where "c' = c" "xs = w @ s'" "\<forall>ch \<in> set w. is_digit ch"
        by blast
      with True have "x # xs = (x # w) @ s' \<and> x # w \<noteq> [] \<and> (\<forall>ch \<in> set (x # w). is_digit ch)"
        by simp
      with \<open>c' = c\<close> show ?thesis by blast
    next
      assume "(c', s') = (c, xs)"
      with True have "x # xs = [x] @ s' \<and> [x] \<noteq> [] \<and> (\<forall>ch \<in> set [x]. is_digit ch)"
        by simp
      with \<open>(c', s') = (c, xs)\<close> show ?thesis by blast
    qed
  qed
qed

lemma rx_run_colon_group:
  assumes "(c', s') \<in> set (rx_run (Cat (Ch CHR '':'') (Grp n (Plus (Cl Digit)))) s c)"
  shows "\<exists>w. s = CHR '':'' # w @ s' \<and> w \<noteq> [] \<and> (\<forall>ch \<in> set w. is_digit ch) \<and> c' = (n, w) # c"
proof -
  from assms obtain t where s: "s = CHR '':'' # t"
    and g: "(c', s') \<in> set (rx_run (Grp n (Plus (Cl Digit))) t c)"
    by (cases s) (auto split: if_splits)
  from g obtain c1 where d: "(c1, s') \<in> set (rx_run (Plus (Cl Digit)) t c)"
    and c': "c' = (n, take (length t - length s') t) # c1"
    by auto
  from rx_run_digits [OF d] obtain w where "c1 = c" "t = w @ s'" "w \<noteq> []" "\<forall>ch \<in> set w. is_digit ch"
    by blast
  with s c' show ?thesis by simp
qed

lemma times_3: "times 3 r = Cat r (Cat r (Cat r Eps))"
  by (simp add: numeral_3_eq_3)

lemma rx_search_run:
  "rx_search r line = Some caps \<Longrightarrow>
     \<exists>pre s rest. line = pre @ s \<and> (caps, rest) \<in> set (rx_run r s [])"
proof (induction line)
  case Nil
  then have "\<exists>rest. (caps, rest) \<in> set (rx_run r [] [])"
    by (cases "rx_run r [] []") (auto split: prod.splits)
  then show ?case by blast
next
  case (Cons x xs)
  show ?case
  proof (cases "rx_run r (x # xs) []")
    case Nil
    with Cons.prems have "rx_search r xs = Some caps" by simp
    from Cons.IH [OF this] obtain pre s rest where "xs = pre @ s" "(caps, rest) \<in> set (rx_run r s [])"
      by blast
    then have "x # xs = (x # pre) @ s \<and> (caps, rest) \<in> set (rx_run r s [])" by simp
    then show ?thesis by blast
  next
    case (Cons m ms)
    obtain c rest where m: "m = (c, rest)" by (cases m)
    with Cons Cons.prems have "c = caps" by simp
    with Cons m have "x # xs = [] @ (x # xs) \<and> (caps, rest) \<in> set (rx_run r (x # xs) [])"
      by simp
    then show ?thesis by blast
  qed
qed

lemma rx_run_Cat_mem:
  "(c', s') \<in> set (rx_run (Cat r1 r2) s c) \<longleftrightarrow>
     (\<exists>c1 s1. (c1, s1) \<in> set (rx_run r1 s c) \<and> (c', s') \<in> set (rx_run r2 s1 c1))"
  by auto

lemma colon_group_then:
  assumes "(c', s') \<in> set (rx_run (Cat (Ch CHR '':'') (Cat (Grp n (Plus (Cl Digit))) r)) s c)"
    and "n \<notin> groups r"
  shows "\<exists>ds b. s = CHR '':'' # ds @ b \<and> ds \<noteq> [] \<and> (\<forall>ch \<in> set ds. is_digit ch)
           \<and> map_of c' n = Some ds"
proof -
  from assms(1) obtain c0 s0 where
    a0: "(c0, s0) \<in> set (rx_run (Ch CHR '':'') s c)"
    and b0: "(c', s') \<in> set (rx_run (Cat (Grp n (Plus (Cl Digit))) r) s0 c0)"
    using rx_run_Cat_mem [of c' s' "Ch CHR '':''" "Cat (Grp n (Plus (Cl Digit))) r" s c] by blast
  from b0 obtain c1 s1 where
    a1: "(c1, s1) \<in> set (rx_run (Grp n (Plus (Cl Digit))) s0 c0)"
    and b: "(c', s') \<in> set (rx_run r s1 c1)"
    using rx_run_Cat_mem [of c' s' "Grp n (Plus (Cl Digit))" r s0 c0] by blast
  from a0 a1 have a: "(c1, s1) \<in> set (rx_run (Cat (Ch CHR '':'') (Grp n (Plus (Cl Digit)))) s c)"
    using rx_run_Cat_mem [of c1 s1 "Ch CHR '':''" "Grp n (Plus (Cl Digit))" s c] by blast
  from rx_run_colon_group [OF a] obtain w where
    w: "s = CHR '':'' # w @ s1" "w \<noteq> []" "\<forall>ch \<in> set w. is_digit ch" "c1 = (n, w) # c"
    by blast
  have "map_of c' n = map_of c1 n"
    by (rule rx_run_keeps [OF b assms(2)])
  with w show ?thesis by auto
qed

lemma after_prefix:
  assumes "(c', s') \<in> set (rx_run (Cat r1 r2) s c)"
    and "\<And>c1 s1. (c', s') \<in> set (rx_run r2 s1 c1) \<Longrightarrow>
           \<exists>ds b. s1 = CHR '':'' # ds @ b \<and> ds \<noteq> [] \<and> (\<forall>ch \<in> set ds. is_digit ch)
             \<and> map_of c' n = Some ds"
  shows "\<exists>a ds b. s = a @ CHR '':'' # ds @ b \<and> ds \<noteq> [] \<and> (\<forall>ch \<in> set ds. is_digit ch)
           \<and> map_of c' n = Some ds"
proof -
  from assms(1) obtain c1 s1 where a: "(c1, s1) \<in> set (rx_run r1 s c)"
    and b: "(c', s') \<in> set (rx_run r2 s1 c1)"
    using rx_run_Cat_mem by blast
  from rx_run_suffix [OF a] obtain w where w: "s = w @ s1" by blast
  from assms(2) [OF b] obtain ds t where
    "s1 = CHR '':'' # ds @ t" "ds \<noteq> []" "\<forall>ch \<in> set ds. is_digit ch" "map_of c' n = Some ds"
    by blast
  with w show ?thesis by blast
qed

lemma port_pattern_capture:
  assumes "pattern \<in> set portPatterns" and "(caps, rest) \<in> set (rx_run pattern s [])"
  shows "\<exists>a ds b. s = a @ CHR '':'' # ds @ b \<and> ds \<noteq> [] \<and> (\<forall>ch \<in> set ds. is_digit ch)
           \<and> map_of caps 1 = Some ds"
proof -
  let ?D = "Plus (Cl Digit)"
  let ?A = "alts [lit ''0.0.0.0'', lit ''127.0.0.1'', lit ''*'', lit ''::'', lit ''[::]'']"
  let ?S = "Plus (Cl Space)"
  from assms(1) consider
      (one) "pattern = Cat ?A (Cat (Ch CHR '':'') (Grp 1 ?D))"
    | (two) "pattern = Cat ?S (Cat ipv4 (Cat (Ch CHR '':'') (Cat (Grp 1 ?D) ?S)))"
    | (three) "pattern = Cat (Ch CHR '':'') (Cat (Grp 1 ?D) (Cat ?S (Cat ipv4 (lit '':*''))))"
    by (auto simp: portPatterns_def)
  then show ?thesis
  proof cases
    case one
    have "\<exists>ds b. s1 = CHR '':'' # ds @ b \<and> ds \<noteq> [] \<and> (\<forall>ch \<in> set ds. is_digit ch)
             \<and> map_of caps 1 = Some ds"
      if "(caps, rest) \<in> set (rx_run (Cat (Ch CHR '':'') (Grp 1 ?D)) s1 c1)" for c1 s1
      using rx_run_colon_group [OF that] by auto
    then show ?thesis
      using assms(2) unfolding one by (rule after_prefix [rotated])
  next
    case two
    have g: "1 \<notin> groups ?S" by simp
    have "\<exists>ds b. s1 = CHR '':'' # ds @ b \<and> ds \<noteq> [] \<and> (\<forall>ch \<in> set ds. is_digit ch)
             \<and> map_of caps 1 = Some ds"
      if "(caps, rest) \<in> set (rx_run (Cat (Ch CHR '':'') (Cat (Grp 1 ?D) ?S)) s1 c1)" for c1 s1
      by (rule colon_group_then [OF that g])
    then have "\<exists>a ds b. s1 = a @ CHR '':'' # ds @ b \<and> ds \<noteq> [] \<and> (\<forall>ch \<in> set ds. is_digit ch)
             \<and> map_of caps 1 = Some ds"
      if "(caps, rest) \<in> set (rx_run (Cat ipv4 (Cat (Ch CHR '':'') (Cat (Grp 1 ?D) ?S))) s1 c1)"
      for c1 s1
      using that by (rule after_prefix [rotated])
    then show ?thesis
      using assms(2) rx_run_Cat_mem [of caps rest ?S _ s "[]"] rx_run_suffix
      unfolding two
      by (metis append.assoc)
  next
    case three
    have g: "1 \<notin> groups (Cat ?S (Cat ipv4 (lit '':*'')))"
      by (simp add: ipv4_def times_3 lit_def)
    from colon_group_then [OF assms(2) [unfolded three] g]
    obtain ds b where "s = [] @ CHR '':'' # ds @ b" "ds \<noteq> []" "\<forall>ch \<in> set ds. is_digit ch"
      "map_of caps 1 = Some ds"
      by auto
    then show ?thesis by blast
  qed
qed

section \<open>Properties: the socket-table reader\<close>

lemmas parser_eval =
  parsePortOutput_def line_entry_def detect_protocol_def portPatterns_def processPatterns_def
  addressPattern_def line_record_def extract_address_def group_def truthy_def lit_def ipv4_def
  times_3 portKey_def is_space_def is_digit_def digit_chars_def parseInt_def digit_val_def
  identifyPortService_def rx_run.simps(6)

lemma parse_sshd_line:
  "parsePortOutput clock
     ''tcp LISTEN 0 128 0.0.0.0:22 0.0.0.0:* users:((\"sshd\",pid=1234,fd=3))''
   = [\<lparr>port = 22, protocol = ''tcp'', process = ''sshd'', pid = Some 1234,
       address = ''0.0.0.0'', timestamp = clock 0\<rparr>]"
  by (simp add: parser_eval)

lemma line_record_fields:
  "(\<lambda>r. (port r, protocol r, process r, pid r, address r)) (line_record now line proto portNo) = (\<lambda>r. (port r, protocol r, process r, pid r, address r)) (line_record now' line proto portNo)"
  by (simp add: line_record_def Let_def split_beta)

lemma parse_lines_fields:
  assumes "map (\<lambda>r. (port r, protocol r, process r, pid r, address r)) ports1 = map (\<lambda>r. (port r, protocol r, process r, pid r, address r)) ports2"
  shows "map (\<lambda>r. (port r, protocol r, process r, pid r, address r)) (parse_lines clock1 lines ports1 seenPorts) =
         map (\<lambda>r. (port r, protocol r, process r, pid r, address r)) (parse_lines clock2 lines ports2 seenPorts)"
  using assms
proof (induction lines arbitrary: ports1 ports2 seenPorts)
  case Nil
  then show ?case by simp
next
  case (Cons line lines)
  show ?case
  proof (cases "line_entry line")
    case None
    then show ?thesis using Cons.IH [OF Cons.prems] by simp
  next
    case (Some e)
    obtain proto portNo where e: "e = (proto, portNo)" by (cases e)
    have ext: "map (\<lambda>r. (port r, protocol r, process r, pid r, address r)) (ports1 @ [line_record (clock1 (length ports1)) line proto portNo]) =
               map (\<lambda>r. (port r, protocol r, process r, pid r, address r)) (ports2 @ [line_record (clock2 (length ports2)) line proto portNo])"
      using Cons.prems line_record_fields by simp
    show ?thesis
      using Some e Cons.IH [OF Cons.prems] Cons.IH [OF ext] by simp
  qed
qed

lemma map_insort_key:
  assumes "\<And>x. k' (f x) = k x"
  shows "map f (insort_key k x xs) = insort_key k' (f x) (map f xs)"
  by (induction xs) (simp_all add: assms)

lemma map_sort_key:
  assumes "\<And>x. k' (f x) = k x"
  shows "map f (sort_key k xs) = sort_key k' (map f xs)"
  by (induction xs) (simp_all add: map_insort_key [of k' f k, OF assms])

lemma parse_lines_length:
  "length ports \<le> length (parse_lines clock lines ports seenPorts)"
proof (induction lines arbitrary: ports seenPorts)
  case Nil
  show ?case by simp
next
  case (Cons line lines)
  have "length ports \<le> length (parse_lines clock lines (ports @ [r]) seen)" for r seen
    using Cons.IH [of "ports @ [r]" seen] by simp
  then show ?case
    using Cons.IH [of ports seenPorts] by (simp split: option.splits)
qed

lemma parse_lines_clock:
  assumes "\<forall>k. length ports \<le> k \<and> k < length (parse_lines clock1 lines ports seenPorts)
             \<longrightarrow> clock1 k = clock2 k"
  shows "parse_lines clock1 lines ports seenPorts = parse_lines clock2 lines ports seenPorts"
  using assms
proof (induction lines arbitrary: ports seenPorts)
  case Nil
  show ?case by simp
next
  case (Cons line lines)
  show ?case
  proof (cases "line_entry line")
    case None
    have s: "parse_lines c (line # lines) ports seenPorts = parse_lines c lines ports seenPorts" for c
      using None by simp
    have "parse_lines clock1 lines ports seenPorts = parse_lines clock2 lines ports seenPorts"
      using Cons.prems unfolding s by (rule Cons.IH)
    then show ?thesis unfolding s .
  next
    case (Some e)
    obtain proto portNo where e: "e = (proto, portNo)" by (cases e)
    show ?thesis
    proof (cases "portKey proto portNo \<in> seenPorts")
      case True
      have s: "parse_lines c (line # lines) ports seenPorts = parse_lines c lines ports seenPorts" for c
        using Some e True by simp
      have "parse_lines clock1 lines ports seenPorts = parse_lines clock2 lines ports seenPorts"
        using Cons.prems unfolding s by (rule Cons.IH)
      then show ?thesis unfolding s .
    next
      case False
      let ?seen = "insert (portKey proto portNo) seenPorts"
      have s: "parse_lines c (line # lines) ports seenPorts =
          parse_lines c lines (ports @ [line_record (c (length ports)) line proto portNo]) ?seen" for c
        using Some e False by simp
      let ?p1 = "ports @ [line_record (clock1 (length ports)) line proto portNo]"
      have "length ?p1 \<le> length (parse_lines clock1 lines ?p1 ?seen)"
        by (rule parse_lines_length)
      then have "length ports < length (parse_lines clock1 (line # lines) ports seenPorts)"
        unfolding s by simp
      then have here: "clock1 (length ports) = clock2 (length ports)"
        using Cons.prems by blast
      have "\<forall>k. length ?p1 \<le> k \<and> k < length (parse_lines clock1 lines ?p1 ?seen)
              \<longrightarrow> clock1 k = clock2 k"
      proof (intro allI impI)
        fix k assume k: "length ?p1 \<le> k \<and> k < length (parse_lines clock1 lines ?p1 ?seen)"
        then have "length ports \<le> k \<and> k < length (parse_lines clock1 (line # lines) ports seenPorts)"
          unfolding s by simp
        then show "clock1 k = clock2 k" using Cons.prems by blast
      qed
      then have "parse_lines clock1 lines ?p1 ?seen = parse_lines clock2 lines ?p1 ?seen"
        by (rule Cons.IH)
      then show ?thesis
        unfolding s here by simp
    qed
  qed
qed

text \<open>
  Claim C4 does not hold of the field \<open>timestamp\<close>: every record is stamped with the
  clock reading at the moment it is built, so two calls on the same text at different
  times return different records.
\<close>

theorem parsePortOutput_timestamps_counterexample:
  "parsePortOutput (\<lambda>k. 1700000000000)
     ''tcp LISTEN 0 128 0.0.0.0:22 0.0.0.0:* users:((\"sshd\",pid=1234,fd=3))''
   \<noteq> parsePortOutput (\<lambda>k. 1700000010000)
     ''tcp LISTEN 0 128 0.0.0.0:22 0.0.0.0:* users:((\"sshd\",pid=1234,fd=3))''"
  by (simp add: parse_sshd_line)

text \<open>
  Claim C4, amended. Two calls of \<open>parsePortOutput\<close> on the same text return lists of
  the same length and order whose records agree in \<open>port\<close>, \<open>protocol\<close>, \<open>process\<close>,
  \<open>pid\<close> and \<open>address\<close>; and when the clock reads the same while the records are built,
  the two lists are identical.
\<close>

theorem parsePortOutput_deterministic:
  "map (\<lambda>r. (port r, protocol r, process r, pid r, address r)) (parsePortOutput clock1 output) =
   map (\<lambda>r. (port r, protocol r, process r, pid r, address r)) (parsePortOutput clock2 output)
   \<and> ((\<forall>k < length (parsePortOutput clock1 output). clock1 k = clock2 k) \<longrightarrow>
        parsePortOutput clock1 output = parsePortOutput clock2 output)"
proof -
  let ?lines = "filter (\<lambda>line. list_ex (\<lambda>c. \<not> is_space c) line) (split_on (CHR 0x0A) output)"
  let ?f = "\<lambda>r. (port r, protocol r, process r, pid r, address r)"
  have k: "fst (?f r) = port r" for r :: port_record
    by simp
  have "map ?f (sort_key port (parse_lines clock1 ?lines [] {})) =
        map ?f (sort_key port (parse_lines clock2 ?lines [] {}))"
    using parse_lines_fields [of "[]" "[]" clock1 ?lines "{}" clock2]
    by (simp add: map_sort_key [of fst ?f port, OF k])
  then have a: "map ?f (parsePortOutput clock1 output) = map ?f (parsePortOutput clock2 output)"
    by (simp add: parsePortOutput_def)
  have b: "parsePortOutput clock1 output = parsePortOutput clock2 output"
    if "\<forall>k < length (parsePortOutput clock1 output). clock1 k = clock2 k"
  proof -
    from that have "\<forall>k. length ([] :: port_record list) \<le> k
          \<and> k < length (parse_lines clock1 ?lines [] {}) \<longrightarrow> clock1 k = clock2 k"
      by (simp add: parsePortOutput_def)
    then have "parse_lines clock1 ?lines [] {} = parse_lines clock2 ?lines [] {}"
      by (rule parse_lines_clock)
    then show ?thesis by (simp add: parsePortOutput_def)
  qed
  show ?thesis
    using a b by blast
qed

theorem parsePortOutput_deterministic_witness:
  "map (\<lambda>r. (port r, protocol r, process r, pid r, address r))
     (parsePortOutput (\<lambda>k. 1700000000000)
        ''tcp LISTEN 0 128 0.0.0.0:22 0.0.0.0:* users:((\"sshd\",pid=1234,fd=3))'')
   = [(22, ''tcp'', ''sshd'', Some 1234, ''0.0.0.0'')]
   \<and> map (\<lambda>r. (port r, protocol r, process r, pid r, address r))
     (parsePortOutput (\<lambda>k. 1700000010000)
        ''tcp LISTEN 0 128 0.0.0.0:22 0.0.0.0:* users:((\"sshd\",pid=1234,fd=3))'')
   = [(22, ''tcp'', ''sshd'', Some 1234, ''0.0.0.0'')]
   \<and> parsePortOutput (\<lambda>k. if k = 0 then 1700000000000 else 5)
        ''tcp LISTEN 0 128 0.0.0.0:22 0.0.0.0:* users:((\"sshd\",pid=1234,fd=3))''
     = parsePortOutput (\<lambda>k. 1700000000000)
        ''tcp LISTEN 0 128 0.0.0.0:22 0.0.0.0:* users:((\"sshd\",pid=1234,fd=3))''"
proof -
  let ?t = "''tcp LISTEN 0 128 0.0.0.0:22 0.0.0.0:* users:((\"sshd\",pid=1234,fd=3))''"
  have l: "length (parsePortOutput (\<lambda>k. if k = 0 then 1700000000000 else 5) ?t) = 1"
    by (simp add: parse_sshd_line)
  show ?thesis
    using parsePortOutput_deterministic [of "\<lambda>k. 1700000000000" ?t "\<lambda>k. 1700000010000"]
      parsePortOutput_deterministic
        [of "\<lambda>k. if k = 0 then 1700000000000 else 5" ?t "\<lambda>k. 1700000000000"] l
    by (simp add: parse_sshd_line)
qed

lemma extract_port_digits:
  assumes "extract_port patterns line = Some n" and "set patterns \<subseteq> set portPatterns"
  shows "\<exists>a ds b. line = a @ CHR '':'' # ds @ b \<and> ds \<noteq> [] \<and> (\<forall>ch \<in> set ds. is_digit ch)
           \<and> n = parseInt ds"
  using assms
proof (induction patterns)
  case Nil
  then show ?case by simp
next
  case (Cons pattern patterns)
  show ?case
  proof (cases "rx_search pattern line \<noteq> None \<and> truthy (group (rx_search pattern line) 1)")
    case False
    with Cons.prems have "extract_port patterns line = Some n"
      by (auto simp: Let_def)
    with Cons show ?thesis by simp
  next
    case True
    then obtain caps where m: "rx_search pattern line = Some caps" by blast
    from rx_search_run [OF m] obtain pre s rest where
      l: "line = pre @ s" and r: "(caps, rest) \<in> set (rx_run pattern s [])"
      by blast
    have "pattern \<in> set portPatterns" using Cons.prems(2) by simp
    from port_pattern_capture [OF this r] obtain a ds b where
      d: "s = a @ CHR '':'' # ds @ b" "ds \<noteq> []" "\<forall>ch \<in> set ds. is_digit ch" "map_of caps 1 = Some ds"
      by blast
    from True m d Cons.prems(1) have "n = parseInt ds"
      by (simp add: Let_def group_def)
    moreover from l d have "line = (pre @ a) @ CHR '':'' # ds @ b" by simp
    ultimately show ?thesis using d by blast
  qed
qed

lemma line_entry_range:
  assumes "line_entry line = Some (proto, portNo)"
  shows "1 \<le> portNo \<and> (proto = ''tcp'' \<or> proto = ''udp'')
         \<and> (\<exists>a ds b. line = a @ CHR '':'' # ds @ b \<and> ds \<noteq> [] \<and> (\<forall>ch \<in> set ds. is_digit ch)
               \<and> portNo = parseInt ds)"
proof -
  from assms have p: "detect_protocol line = Some proto"
    and e: "extract_port portPatterns line = Some portNo" and z: "portNo \<noteq> 0"
    by (auto simp: line_entry_def split: if_splits option.splits)
  from p have "proto = ''tcp'' \<or> proto = ''udp''"
    by (auto simp: detect_protocol_def split: if_splits)
  with extract_port_digits [OF e subset_refl] z show ?thesis by simp
qed

lemma parse_lines_records:
  assumes "r \<in> set (parse_lines clock lines ports seenPorts)"
  shows "r \<in> set ports \<or>
    (\<exists>line \<in> set lines. \<exists>proto portNo now.
        line_entry line = Some (proto, portNo) \<and> r = line_record now line proto portNo)"
  using assms
proof (induction lines arbitrary: ports seenPorts)
  case Nil
  then show ?case by simp
next
  case (Cons line lines)
  show ?case
  proof (cases "line_entry line")
    case None
    with Cons.prems have "r \<in> set (parse_lines clock lines ports seenPorts)" by simp
    from Cons.IH [OF this] show ?thesis by auto
  next
    case (Some e)
    obtain proto portNo where e: "e = (proto, portNo)" by (cases e)
    show ?thesis
    proof (cases "portKey proto portNo \<in> seenPorts")
      case True
      with Some e Cons.prems have "r \<in> set (parse_lines clock lines ports seenPorts)" by simp
      from Cons.IH [OF this] show ?thesis by auto
    next
      case False
      let ?new = "line_record (clock (length ports)) line proto portNo"
      from False Some e Cons.prems have
        "r \<in> set (parse_lines clock lines (ports @ [?new]) (insert (portKey proto portNo) seenPorts))"
        by simp
      from Cons.IH [OF this] consider "r \<in> set ports" | "r = ?new"
        | "\<exists>l \<in> set lines. \<exists>proto portNo now.
              line_entry l = Some (proto, portNo) \<and> r = line_record now l proto portNo"
        by auto
      then show ?thesis
      proof cases
        case 1
        then show ?thesis by simp
      next
        case 2
        with Some e show ?thesis by auto
      next
        case 3
        then show ?thesis by auto
      qed
    qed
  qed
qed

lemma line_record_port:
  "port (line_record now line proto portNo) = portNo
   \<and> protocol (line_record now line proto portNo) = proto"
  by (simp add: line_record_def Let_def split_beta)

text \<open>
  What the parser does for every text: a record has a port of at least 1 and the protocol
  \<open>tcp\<close> or \<open>udp\<close>, and its port is the value of a run of digits that follows a colon
  somewhere in a line of the text. No pattern ties that colon to the column of the
  local address, and no line of the parser compares the value with 65535.
\<close>

lemma parsePortOutput_port_source:
  "\<forall>r \<in> set (parsePortOutput clock output).
      1 \<le> port r \<and> (protocol r = ''tcp'' \<or> protocol r = ''udp'')
      \<and> (\<exists>line \<in> set (split_on (CHR 0x0A) output). \<exists>a ds b.
            line = a @ CHR '':'' # ds @ b \<and> ds \<noteq> [] \<and> (\<forall>ch \<in> set ds. is_digit ch)
            \<and> port r = parseInt ds)"
proof
  fix r assume "r \<in> set (parsePortOutput clock output)"
  let ?lines = "filter (\<lambda>line. list_ex (\<lambda>c. \<not> is_space c) line) (split_on (CHR 0x0A) output)"
  from \<open>r \<in> set (parsePortOutput clock output)\<close>
  have "r \<in> set (parse_lines clock ?lines [] {})"
    by (simp add: parsePortOutput_def)
  from parse_lines_records [OF this] obtain line proto portNo now where
    l: "line \<in> set ?lines" and e: "line_entry line = Some (proto, portNo)"
    and r: "r = line_record now line proto portNo"
    by auto
  from line_entry_range [OF e] obtain a ds b where
    p: "1 \<le> portNo" "proto = ''tcp'' \<or> proto = ''udp''"
    and d: "line = a @ CHR '':'' # ds @ b" "ds \<noteq> []" "\<forall>ch \<in> set ds. is_digit ch"
       "portNo = parseInt ds"
    by blast
  from l have m: "line \<in> set (split_on (CHR 0x0A) output)" by simp
  from r have q: "port r = portNo" "protocol r = proto"
    using line_record_port [of now line proto portNo] by simp_all
  from d q have "\<exists>a ds b. line = a @ CHR '':'' # ds @ b \<and> ds \<noteq> [] \<and> (\<forall>ch \<in> set ds. is_digit ch)
      \<and> port r = parseInt ds"
    by blast
  with m have "\<exists>line \<in> set (split_on (CHR 0x0A) output). \<exists>a ds b.
      line = a @ CHR '':'' # ds @ b \<and> ds \<noteq> [] \<and> (\<forall>ch \<in> set ds. is_digit ch)
      \<and> port r = parseInt ds"
    by (rule bexI [rotated])
  with p q show "1 \<le> port r \<and> (protocol r = ''tcp'' \<or> protocol r = ''udp'')
      \<and> (\<exists>line \<in> set (split_on (CHR 0x0A) output). \<exists>a ds b.
            line = a @ CHR '':'' # ds @ b \<and> ds \<noteq> [] \<and> (\<forall>ch \<in> set ds. is_digit ch)
            \<and> port r = parseInt ds)"
    by simp
qed

text \<open>
  Claim C7: every record of \<open>parsePortOutput\<close> has a port within 1 to 65535. The code
  does not keep the upper bound, and the port it returns is not always the port of the
  socket. The first port pattern is searched over the whole line of ss, the column of
  the process included. For a socket listening on \<open>192.168.1.5:22\<close> whose process is
  named \<open>*:70000\<close> the pattern finds no wildcard or loopback address in the column of the
  local address, matches inside the name of the process, and the record gets the port
  70000. The same line with the socket bound to \<open>0.0.0.0:22\<close> gives the port 22 of the
  socket. The same misreading gives the port 443 to a socket on port 23 whose process
  is named \<open>*:443\<close>.
\<close>

theorem parsePortOutput_port_from_process_name:
  "parsePortOutput (\<lambda>k. 0)
     ''tcp LISTEN 0 128 192.168.1.5:22 0.0.0.0:* users:((\"*:70000\",pid=1234,fd=3))''
     = [\<lparr>port = 70000, protocol = ''tcp'', process = ''*:70000'', pid = Some 1234,
         address = ''192.168.1.5'', timestamp = 0\<rparr>]
   \<and> (65535 :: nat) < 70000
   \<and> parsePortOutput (\<lambda>k. 0)
     ''tcp LISTEN 0 128 0.0.0.0:22 0.0.0.0:* users:((\"*:70000\",pid=1234,fd=3))''
     = [\<lparr>port = 22, protocol = ''tcp'', process = ''*:70000'', pid = Some 1234,
         address = ''0.0.0.0'', timestamp = 0\<rparr>]
   \<and> parsePortOutput (\<lambda>k. 0)
     ''tcp LISTEN 0 128 192.168.1.5:23 0.0.0.0:* users:((\"*:443\",pid=1234,fd=3))''
     = [\<lparr>port = 443, protocol = ''tcp'', process = ''*:443'', pid = Some 1234,
         address = ''192.168.1.5'', timestamp = 0\<rparr>]"
  by (simp add: parser_eval)

end
